theory Spec2Isabelle
  imports Complex_Main
begin

section \<open>Identifiers\<close>

text \<open>
  Primary keys are UUIDs in the source (\<open>models.UUIDField(primary_key=True)\<close>); only
  their identity matters here, so they are natural numbers. Users are keys as well.
\<close>

type_synonym uuid = nat
type_synonym user = nat

section \<open>images/models.py: ImageBatch and Image\<close>

text \<open>
  \<open>Image.IMAGE_STATUS\<close>: the ten choices of the workflow status, in the order of the
  source. The spec's DETECTED is \<open>YOLO_PROCESSED\<close> here.
\<close>

datatype image_status =
    UPLOADED | YOLO_PROCESSED | ASSIGNED | IN_PROGRESS | ANNOTATED | SUBMITTED
  | UNDER_REVIEW | APPROVED | REJECTED | REQUIRES_REVISION

text \<open>
  The fields of \<open>Image\<close> that the workflow reads: the key, the owning batch and the
  status. File properties, detection results and flags play no part in what follows.
\<close>

record Image =
  image_pk :: uuid
  image_batch :: uuid
  image_status :: image_status

text \<open>
  \<open>ImageBatch\<close>: the key, the declared number of images (\<open>total_images\<close>, an
  \<open>IntegerField\<close> supplied by the creator) and the four progress counters.
\<close>

record ImageBatch =
  imagebatch_pk :: uuid
  total_images :: int
  assigned_count :: int
  completed_count :: int
  approved_count :: int
  rejected_count :: int

text \<open>\<open>queryset.filter(status__in=[...]).count()\<close> on a list of rows.\<close>

definition count_status_in :: "image_status list \<Rightarrow> Image list \<Rightarrow> int" where
  "count_status_in ss imgs = int (length (filter (\<lambda>i. image_status i \<in> set ss) imgs))"

text \<open>\<open>self.images.all()\<close>: the rows of the Image table whose foreign key is this batch.\<close>

definition batch_images :: "ImageBatch \<Rightarrow> Image list \<Rightarrow> Image list" where
  "batch_images b tbl = filter (\<lambda>i. image_batch i = imagebatch_pk b) tbl"

text \<open>
  \<open>ImageBatch.update_progress\<close>: the four counters are recomputed from the child rows
  and written back (\<open>save(update_fields=[...])\<close> writes exactly these four columns).
\<close>

definition ImageBatch_update_progress :: "ImageBatch \<Rightarrow> Image list \<Rightarrow> ImageBatch" where
  "ImageBatch_update_progress self tbl =
     (let images = batch_images self tbl in
      self\<lparr>assigned_count := count_status_in [ASSIGNED, IN_PROGRESS, ANNOTATED, SUBMITTED] images,
           completed_count := count_status_in [APPROVED, REJECTED] images,
           approved_count := count_status_in [APPROVED] images,
           rejected_count := count_status_in [REJECTED] images\<rparr>)"

text \<open>\<open>Image.can_be_assigned\<close>.\<close>

definition can_be_assigned :: "Image \<Rightarrow> bool" where
  "can_be_assigned self \<longleftrightarrow> image_status self \<in> set [YOLO_PROCESSED, REQUIRES_REVISION]"

section \<open>The ORM operations the code relies on\<close>

text \<open>
  A table is the list of its rows in the model's default ordering, newest first
  (\<open>ordering = ['-created_at']\<close>), so \<open>create\<close> puts the new row in front. Each
  statement is committed on its own (Django's autocommit). \<open>objects.get\<close> raises
  \<open>DoesNotExist\<close> when no row matches. An insert raises \<open>IntegrityError\<close> when it
  violates a constraint of the table (primary key, uniqueness, foreign key, NOT NULL),
  and an out-of-range error when a value does not fit its column (\<open>OverflowError\<close> or
  \<open>DataError\<close>, by the backend). Saving a number that needs more digits than a
  \<open>DecimalField\<close> has raises \<open>InvalidOperation\<close>.
\<close>

datatype orm_error = DoesNotExist | IntegrityError | OutOfRange | InvalidOperation

text \<open>\<open>Model.objects.get(id=k)\<close>.\<close>

definition orm_get :: "('r \<Rightarrow> uuid) \<Rightarrow> 'r list \<Rightarrow> uuid \<Rightarrow> orm_error + 'r" where
  "orm_get pk tbl k =
     (case find (\<lambda>r. pk r = k) tbl of None \<Rightarrow> Inl DoesNotExist | Some r \<Rightarrow> Inr r)"

text \<open>
  \<open>instance.save()\<close> without \<open>update_fields\<close>: every column of the row with the
  instance's key is overwritten with the instance's values; a key not yet in the table is
  inserted.
\<close>

definition orm_save :: "('r \<Rightarrow> uuid) \<Rightarrow> 'r list \<Rightarrow> 'r \<Rightarrow> 'r list" where
  "orm_save pk tbl r =
     (if pk r \<in> set (map pk tbl) then map (\<lambda>row. if pk row = pk r then r else row) tbl
      else r # tbl)"

text \<open>
  \<open>Model.objects.create(...)\<close>: an insert. \<open>fits\<close> says that every value of the row
  fits its column, \<open>constraints\<close> that the row satisfies the constraints of its table
  other than the primary key; each model below states both. A value that does not fit
  is refused before any constraint is looked at.
\<close>

definition orm_create :: "('r \<Rightarrow> uuid) \<Rightarrow> bool \<Rightarrow> bool \<Rightarrow> 'r list \<Rightarrow> 'r \<Rightarrow> orm_error + 'r list" where
  "orm_create pk fits constraints tbl r =
     (if \<not> fits then Inl OutOfRange
      else if pk r \<in> set (map pk tbl) then Inl IntegrityError
      else if \<not> constraints then Inl IntegrityError
      else Inr (r # tbl))"

text \<open>
  The database backend is chosen in the settings, which are not among the sources; what
  the models need from it is the range of an \<open>IntegerField\<close> column (32 bits on
  PostgreSQL and MySQL, 64 bits on SQLite). An optional integer is in range when it is
  absent or its value is.
\<close>

record backend =
  integer_min :: int
  integer_max :: int

definition in_integer_range :: "backend \<Rightarrow> int \<Rightarrow> bool" where
  "in_integer_range be n \<longleftrightarrow> integer_min be \<le> n \<and> n \<le> integer_max be"

definition optional_in_range :: "backend \<Rightarrow> int option \<Rightarrow> bool" where
  "optional_in_range be x = (case x of None \<Rightarrow> True | Some n \<Rightarrow> in_integer_range be n)"

section \<open>Floats and decimal columns\<close>

text \<open>
  Python's float operations round their exact result to a double. The rounding is a
  parameter \<open>fl\<close> of the functions that compute with floats; what is known of it is the
  relative error of at most \<open>2^-53\<close> (away from overflow and underflow). A float value
  is the rational it denotes.
\<close>

definition double_rounding :: "(rat \<Rightarrow> rat) \<Rightarrow> bool" where
  "double_rounding fl \<longleftrightarrow> (\<forall>x. \<bar>fl x - x\<bar> \<le> \<bar>x\<bar> / 2 ^ 53)"

text \<open>\<open>sum(...)\<close> over floats: the additions from the left, starting at 0, each rounded.\<close>

definition float_sum :: "(rat \<Rightarrow> rat) \<Rightarrow> rat list \<Rightarrow> rat" where
  "float_sum fl xs = foldl (\<lambda>s x. fl (s + x)) 0 xs"

text \<open>The nearest integer, a tie going to the even one (\<open>ROUND_HALF_EVEN\<close>).\<close>

definition round_half_even :: "rat \<Rightarrow> int" where
  "round_half_even x =
     (let f = \<lfloor>x\<rfloor>; r = x - of_int f
      in if r < 1 / 2 then f else if 1 / 2 < r then f + 1 else if even f then f else f + 1)"

text \<open>
  What a \<open>DecimalField(max_digits, decimal_places)\<close> stores for a float \<open>x\<close> on save.
  \<open>to_python\<close> turns the float into a decimal of \<open>max_digits\<close> significant digits
  (\<open>create_decimal_from_float\<close> in a context of that precision), and the result is
  quantized to \<open>decimal_places\<close> places in the same precision, which raises
  \<open>InvalidOperation\<close> when that takes more than \<open>max_digits\<close> digits, that is from
  \<open>10 ^ (max_digits - decimal_places)\<close> on.

  \<open>decimal_unit n t u x\<close> finds the unit of the last significant digit: \<open>u\<close> when
  \<open>\<bar>x\<bar>\<close> reaches the power of ten \<open>t\<close>, a tenth of it for each power of ten below, and 0
  when \<open>x\<close> is below all \<open>n\<close> powers tried. For a value below
  \<open>10 ^ (max_digits - decimal_places)\<close> the first power is one below that, where the
  unit is \<open>10 ^ - decimal_places\<close>; \<open>max_digits + 1\<close> powers are tried, and a value below
  them all is quantized to 0 whatever its digits are.
\<close>

fun decimal_unit :: "nat \<Rightarrow> rat \<Rightarrow> rat \<Rightarrow> rat \<Rightarrow> rat" where
  "decimal_unit 0 t u x = 0"
| "decimal_unit (Suc n) t u x = (if t \<le> \<bar>x\<bar> then u else decimal_unit n (t / 10) (u / 10) x)"

definition create_decimal :: "nat \<Rightarrow> nat \<Rightarrow> rat \<Rightarrow> rat" where
  "create_decimal max_digits decimal_places x =
     (let u = decimal_unit (Suc max_digits) (10 ^ (max_digits - decimal_places) / 10)
                (1 / 10 ^ decimal_places) x
      in if u = 0 then x else of_int (round_half_even (x / u)) * u)"

definition quantize_decimal :: "nat \<Rightarrow> nat \<Rightarrow> rat \<Rightarrow> orm_error + rat" where
  "quantize_decimal max_digits decimal_places r =
     (let q = of_int (round_half_even (r * 10 ^ decimal_places)) / 10 ^ decimal_places
      in if 10 ^ (max_digits - decimal_places) \<le> \<bar>q\<bar> then Inl InvalidOperation else Inr q)"

definition store_decimal :: "nat \<Rightarrow> nat \<Rightarrow> rat \<Rightarrow> orm_error + rat" where
  "store_decimal max_digits decimal_places x =
     (if 10 ^ (max_digits - decimal_places) \<le> \<bar>x\<bar> then Inl InvalidOperation
      else quantize_decimal max_digits decimal_places
             (create_decimal max_digits decimal_places x))"

section \<open>annotations/models.py: BatchAssignment and Annotation\<close>

datatype annotation_status =
    ANN_DRAFT | ANN_COMPLETED | ANN_SUBMITTED | ANN_UNDER_REVIEW | ANN_APPROVED
  | ANN_REVISION_REQUESTED

text \<open>
  The columns of \<open>Annotation\<close> kept here: the key, the two foreign keys, the two columns
  that are required and have no default (\<open>refined_keypoints\<close>, a JSON text, and
  \<open>time_spent_seconds\<close>; \<open>None\<close> when the creator leaves them out), the versioning
  columns and the status. Every other column is nullable or has a default, and the rows
  considered leave it at NULL or at that default.
\<close>

record Annotation =
  annotation_id :: uuid
  annotation_image :: uuid
  batch_assignment :: uuid
  refined_keypoints :: "string option"
  version :: int
  is_revision :: bool
  original_annotation :: "uuid option"
  time_spent_seconds :: "int option"
  annotation_status :: annotation_status

text \<open>
  The stored row of a \<open>BatchAssignment\<close>: \<open>progress_percentage\<close> is the value of a
  \<open>DecimalField(max_digits=5, decimal_places=2)\<close> column.
\<close>

record BatchAssignment =
  assignment_id :: uuid
  progress_percentage :: rat
  images_completed :: int
  images_total :: int

text \<open>
  The field defaults of \<open>Annotation\<close>: \<open>version = 1\<close>, \<open>is_revision = False\<close>,
  \<open>original_annotation = NULL\<close>, \<open>status = 'DRAFT'\<close>. The caller gives the key, the
  image, the assignment and the two required values.
\<close>

definition Annotation_defaults :: "uuid \<Rightarrow> uuid \<Rightarrow> uuid \<Rightarrow> string \<Rightarrow> int \<Rightarrow> Annotation" where
  "Annotation_defaults k img asg keypoints seconds =
     \<lparr>annotation_id = k, annotation_image = img, batch_assignment = asg,
      refined_keypoints = Some keypoints, version = 1, is_revision = False,
      original_annotation = None, time_spent_seconds = Some seconds,
      annotation_status = ANN_DRAFT\<rparr>"

section \<open>verifications/models.py: Verification\<close>

datatype verification_decision =
    DEC_APPROVED | DEC_APPROVED_WITH_CORRECTIONS | DEC_MINOR_REVISION_NEEDED
  | DEC_MAJOR_REVISION_NEEDED | DEC_REJECTED

text \<open>
  The columns of \<open>Verification\<close> kept here: the key, the one-to-one link to the
  annotation, the verifier, the decision, the three integer columns that are required
  and have no default (\<open>None\<close> when left out) and \<open>can_be_reannotated\<close>. Every other
  column is nullable or has a default and is left at NULL or at that default.
\<close>

record Verification =
  verification_id :: uuid
  annotation :: uuid
  verifier :: user
  decision :: verification_decision
  overall_quality_score :: "int option"
  verification_time_seconds :: "int option"
  certainty_level :: "int option"
  can_be_reannotated :: bool

definition is_approved :: "Verification \<Rightarrow> bool" where
  "is_approved self \<longleftrightarrow> decision self \<in> set [DEC_APPROVED, DEC_APPROVED_WITH_CORRECTIONS]"

definition needs_revision :: "Verification \<Rightarrow> bool" where
  "needs_revision self \<longleftrightarrow>
     decision self \<in> set [DEC_MINOR_REVISION_NEEDED, DEC_MAJOR_REVISION_NEEDED]"

definition is_rejected :: "Verification \<Rightarrow> bool" where
  "is_rejected self \<longleftrightarrow> decision self = DEC_REJECTED"

section \<open>The tables of the annotation workflow\<close>

text \<open>
  The tables the foreign keys of \<open>Annotation\<close> and \<open>Verification\<close> point into: the users
  (their keys), the images, the assignments, the annotations and the verifications.
\<close>

record workflow_db =
  user_table :: "user list"
  image_table :: "Image list"
  assignment_table :: "BatchAssignment list"
  annotation_table :: "Annotation list"
  verification_table :: "Verification list"

text \<open>
  \<open>Annotation.objects.create\<close>. The integer columns must fit. \<open>Annotation.Meta\<close> lists
  indexes and an ordering and no constraint, so beside the primary key the table has
  the NOT NULL columns and the three foreign keys: the image, the assignment and, when
  given, the original annotation, which may be any stored annotation or the new row
  itself.
\<close>

definition Annotation_fits :: "backend \<Rightarrow> Annotation \<Rightarrow> bool" where
  "Annotation_fits be a \<longleftrightarrow>
     in_integer_range be (version a) \<and> optional_in_range be (time_spent_seconds a)"

definition Annotation_constraints :: "workflow_db \<Rightarrow> Annotation \<Rightarrow> bool" where
  "Annotation_constraints db a \<longleftrightarrow>
     refined_keypoints a \<noteq> None \<and> time_spent_seconds a \<noteq> None
     \<and> annotation_image a \<in> set (map image_pk (image_table db))
     \<and> batch_assignment a \<in> set (map assignment_id (assignment_table db))
     \<and> (case original_annotation a of
           None \<Rightarrow> True
         | Some k \<Rightarrow> k \<in> set (map annotation_id (annotation_table db)) \<or> k = annotation_id a)"

definition Annotation_create :: "backend \<Rightarrow> workflow_db \<Rightarrow> Annotation \<Rightarrow> orm_error + workflow_db" where
  "Annotation_create be db a =
     (case orm_create annotation_id (Annotation_fits be a) (Annotation_constraints db a)
             (annotation_table db) a of
        Inl e \<Rightarrow> Inl e
      | Inr tbl \<Rightarrow> Inr (db\<lparr>annotation_table := tbl\<rparr>))"

text \<open>\<open>self.annotations\<close> of an assignment, and of an image.\<close>

definition assignment_annotations :: "BatchAssignment \<Rightarrow> Annotation list \<Rightarrow> Annotation list" where
  "assignment_annotations self tbl = filter (\<lambda>a. batch_assignment a = assignment_id self) tbl"

definition image_annotations :: "Image \<Rightarrow> Annotation list \<Rightarrow> Annotation list" where
  "image_annotations self tbl = filter (\<lambda>a. annotation_image a = image_pk self) tbl"

text \<open>
  \<open>BatchAssignment.update_progress\<close>, on the stored row. The quotient and the product are
  float operations. \<open>save(update_fields=['images_completed', 'progress_percentage'])\<close>
  writes the two columns or, when the percentage does not fit its column, raises and
  writes nothing. With \<open>images_total\<close> not positive the percentage is the one read from
  the row, saved again.
\<close>

definition BatchAssignment_update_progress ::
    "(rat \<Rightarrow> rat) \<Rightarrow> BatchAssignment \<Rightarrow> Annotation list \<Rightarrow> orm_error + BatchAssignment" where
  "BatchAssignment_update_progress fl self tbl =
     (let completed = int (length (filter (\<lambda>a. annotation_status a = ANN_SUBMITTED)
                                     (assignment_annotations self tbl)));
          stored = (if images_total self > 0
                    then store_decimal 5 2
                           (fl (fl (of_int completed / of_int (images_total self)) * 100))
                    else quantize_decimal 5 2 (progress_percentage self))
      in case stored of
           Inl e \<Rightarrow> Inl e
         | Inr p \<Rightarrow> Inr (self\<lparr>images_completed := completed, progress_percentage := p\<rparr>))"

text \<open>\<open>Image.get_annotation\<close>: the first SUBMITTED annotation in the default ordering.\<close>

definition get_annotation :: "Image \<Rightarrow> Annotation list \<Rightarrow> Annotation option" where
  "get_annotation self tbl =
     find (\<lambda>a. annotation_status a = ANN_SUBMITTED) (image_annotations self tbl)"





section \<open>Status changes of an Image\<close>

text \<open>
  A status change of an \<open>Image\<close>. No function of the repository writes
  \<open>Image.status\<close>; the change is the ORM idiom the views and tasks use for every status:
  \<open>obj = Model.objects.get(id=k); obj.status = s; obj.save()\<close>.
\<close>

definition Image_set_status :: "Image list \<Rightarrow> uuid \<Rightarrow> image_status \<Rightarrow> orm_error + Image list" where
  "Image_set_status tbl k s =
     (case orm_get image_pk tbl k of
        Inl e \<Rightarrow> Inl e
      | Inr img \<Rightarrow> Inr (orm_save image_pk tbl (img\<lparr>image_status := s\<rparr>)))"

section \<open>Notions of the specification\<close>

text \<open>
  The transition table of the specification (section 4.2), over the statuses of the
  source: \<open>UPLOADED \<rightarrow> DETECTED \<rightarrow> ASSIGNED \<rightarrow> IN_PROGRESS \<rightarrow> ANNOTATED \<rightarrow> SUBMITTED \<rightarrow>
  UNDER_REVIEW \<rightarrow> {APPROVED | REJECTED | REQUIRES_REVISION}\<close>, and \<open>REQUIRES_REVISION\<close>
  back to \<open>ASSIGNED\<close>. This definition follows the specification, not the code.
\<close>

fun spec_transition :: "image_status \<Rightarrow> image_status \<Rightarrow> bool" where
  "spec_transition UPLOADED t = (t = YOLO_PROCESSED)"
| "spec_transition YOLO_PROCESSED t = (t = ASSIGNED)"
| "spec_transition ASSIGNED t = (t = IN_PROGRESS)"
| "spec_transition IN_PROGRESS t = (t = ANNOTATED)"
| "spec_transition ANNOTATED t = (t = SUBMITTED)"
| "spec_transition SUBMITTED t = (t = UNDER_REVIEW)"
| "spec_transition UNDER_REVIEW t = (t \<in> set [APPROVED, REJECTED, REQUIRES_REVISION])"
| "spec_transition REQUIRES_REVISION t = (t = ASSIGNED)"
| "spec_transition APPROVED t = False"
| "spec_transition REJECTED t = False"

text \<open>
  The prior maximum version among the annotations of an image, 0 when it has none
  (the quantity the specification's \<open>submit\<close> adds one to). This definition follows
  the specification, not the code.
\<close>

definition spec_prior_max_version :: "uuid \<Rightarrow> Annotation list \<Rightarrow> int" where
  "spec_prior_max_version img tbl =
     foldr max (map version (filter (\<lambda>a. annotation_image a = img) tbl)) 0"

section \<open>images/models.py: UploadBatch and ImageUpload\<close>

text \<open>
  The status choices of \<open>ImageUpload\<close> (lower case, as stored) and of \<open>UploadBatch\<close>
  (written here with their display names, since the stored values repeat those of the
  image).
\<close>

datatype upload_status = uploaded | processing | completed | failed | cancelled

datatype upload_batch_status = Pending | Uploading | Processing | Completed | Failed | Cancelled

text \<open>
  One detection of the detector: the source's dictionary with the keys \<open>type\<close>,
  \<open>label\<close>, \<open>x\<close>, \<open>y\<close> and \<open>confidence\<close>. Coordinates and confidence are floats in
  the source and are only stored.
\<close>

record detection =
  det_type :: string
  det_label :: string
  det_x :: rat
  det_y :: rat
  det_confidence :: rat

record UploadBatch =
  ubatch_id :: uuid
  ubatch_user :: user
  total_files :: int
  uploaded_files :: int
  processed_files :: int
  failed_files :: int
  ubatch_status :: upload_batch_status
  completed_at :: "nat option"

record ImageUpload =
  upload_id :: uuid
  upload_batch :: uuid
  file_id :: string
  original_filename :: string
  file_path :: string
  file_size :: int
  mime_type :: string
  upload_status :: upload_status
  yolo_keypoints :: "detection list option"
  keypoints_count :: int
  avg_keypoint_confidence :: "rat option"
  error_message :: "string option"
  processed_at :: "nat option"

text \<open>
  Of \<open>ImageUpload\<close> the columns above are kept; the model version, the timings and
  the legacy copy of the detections are written together with \<open>yolo_keypoints\<close> and
  read by nothing that follows. \<open>avg_keypoint_confidence\<close> is the value of a
  \<open>DecimalField(max_digits=4, decimal_places=3)\<close> column. \<open>completed_at\<close> and
  \<open>processed_at\<close> hold the time as a number.
\<close>

text \<open>
  The stored state the views and tasks work on: the two tables, the legacy annotation
  rows (the image they belong to and the detection they copy), the paths written to the
  file storage, and the identifiers of the images handed to the task queue.
\<close>

record db =
  upload_batches :: "UploadBatch list"
  image_uploads :: "ImageUpload list"
  legacy_annotations :: "(uuid \<times> detection) list"
  storage :: "string list"
  task_queue :: "uuid list"

text \<open>\<open>batch.images\<close>: the upload rows of a batch.\<close>

definition upload_batch_images :: "uuid \<Rightarrow> db \<Rightarrow> ImageUpload list" where
  "upload_batch_images b d = filter (\<lambda>i. upload_batch i = b) (image_uploads d)"

section \<open>images/tasks.py\<close>

text \<open>
  The detector (\<open>YOLOProcessor.process_image\<close>) is an external collaborator: given the
  path of the file it returns the detections or raises; \<open>Inl\<close> carries the message of the
  exception; its detections carry every key the task reads. The time of
  \<open>timezone.now()\<close> is a parameter. Messages to the channel layer
  change no stored state and are left out: the channel layer is taken to accept every
  message (in the synchronous version a failing send is caught and logged).
\<close>

type_synonym detector = "string \<Rightarrow> string + detection list"

text \<open>
  What the tasks take from the platform they run on: the rounding of float operations,
  and whether the backend accepts the legacy annotation row made from a detection (the
  lengths of \<open>keypoint_type\<close> and \<open>label\<close>, which SQLite does not check).
\<close>

record platform =
  float_round :: "rat \<Rightarrow> rat"
  accepts_detection :: "detection \<Rightarrow> bool"

text \<open>
  \<open>avg_confidence\<close>: the float mean of the confidences of the keypoints, 0 when there
  is none.
\<close>

definition avg_confidence :: "platform \<Rightarrow> detection list \<Rightarrow> rat" where
  "avg_confidence pf keypoints =
     (if keypoints = [] then 0
      else float_round pf (float_sum (float_round pf) (map det_confidence keypoints)
                            / of_nat (length keypoints)))"

text \<open>
  The handler \<open>except Exception as e\<close>, the same in both versions of the task: the image
  is read again and marked failed with the message, then the failed counter of its
  batch, read through the foreign key, is incremented and the batch saved. An exception
  inside the handler is caught and logged.
\<close>

definition mark_failed :: "db \<Rightarrow> uuid \<Rightarrow> string \<Rightarrow> db" where
  "mark_failed d image_id msg =
     (case orm_get upload_id (image_uploads d) image_id of
        Inl _ \<Rightarrow> d
      | Inr image_upload \<Rightarrow>
          (let d1 = d\<lparr>image_uploads := orm_save upload_id (image_uploads d)
                         (image_upload\<lparr>upload_status := failed, error_message := Some msg\<rparr>)\<rparr>
           in case orm_get ubatch_id (upload_batches d1) (upload_batch image_upload) of
                Inl _ \<Rightarrow> d1
              | Inr batch \<Rightarrow>
                  d1\<lparr>upload_batches := orm_save ubatch_id (upload_batches d1)
                        (batch\<lparr>failed_files := failed_files batch + 1\<rparr>)\<rparr>))"

text \<open>
  The body after a successful detection, the same in both versions: a legacy annotation
  row for each detection, the image saved as completed, \<open>processed_files\<close> of the batch
  instance incremented, the batch marked completed when its counters add up to
  \<open>total_files\<close>, and the batch saved. The batch instance is the one read at the start of
  the task. Two steps can raise: the creation of a legacy row the backend refuses, which
  leaves the rows created before it, and the save of the image when the average
  confidence does not fit its column. \<open>Inl\<close> carries the message and the state reached.
\<close>

definition record_results ::
    "platform \<Rightarrow> nat \<Rightarrow> db \<Rightarrow> ImageUpload \<Rightarrow> UploadBatch \<Rightarrow> detection list \<Rightarrow> string \<times> db + db" where
  "record_results pf now d image_upload batch results =
     (let keypoints = filter (\<lambda>r. det_type r = ''keypoint'') results;
          created = takeWhile (accepts_detection pf) results;
          d1 = d\<lparr>legacy_annotations :=
                   legacy_annotations d @ map (Pair (upload_id image_upload)) created\<rparr>
      in if length created < length results then Inl (''DataError'', d1)
         else
           (case store_decimal 4 3 (avg_confidence pf keypoints) of
              Inl _ \<Rightarrow> Inl (''InvalidOperation'', d1)
            | Inr avg \<Rightarrow>
                (let d2 = d1\<lparr>image_uploads := orm_save upload_id (image_uploads d1)
                              (image_upload\<lparr>upload_status := completed,
                                            yolo_keypoints := Some results,
                                            keypoints_count := int (length keypoints),
                                            avg_keypoint_confidence := Some avg,
                                            processed_at := Some now\<rparr>)\<rparr>;
                     batch1 = batch\<lparr>processed_files := processed_files batch + 1\<rparr>;
                     batch2 = (if processed_files batch1 + failed_files batch1 = total_files batch1
                               then batch1\<lparr>ubatch_status := Completed, completed_at := Some now\<rparr>
                               else batch1)
                 in Inr (d2\<lparr>upload_batches := orm_save ubatch_id (upload_batches d2) batch2\<rparr>))))"

text \<open>
  \<open>process_image_with_yolo_sync\<close>. A missing image returns \<open>False\<close>; a missing batch row
  raises on \<open>image_upload.batch\<close>, before the status is written, and is handled like any
  other exception.
\<close>

definition process_image_with_yolo_sync ::
    "platform \<Rightarrow> detector \<Rightarrow> nat \<Rightarrow> db \<Rightarrow> uuid \<Rightarrow> bool \<times> db" where
  "process_image_with_yolo_sync pf detect now d image_id =
     (case orm_get upload_id (image_uploads d) image_id of
        Inl _ \<Rightarrow> (False, d)
      | Inr image_upload0 \<Rightarrow>
          (case orm_get ubatch_id (upload_batches d) (upload_batch image_upload0) of
             Inl _ \<Rightarrow> (False, mark_failed d image_id ''UploadBatch matching query does not exist.'')
           | Inr batch \<Rightarrow>
               (let image_upload = image_upload0\<lparr>upload_status := processing\<rparr>;
                    d1 = d\<lparr>image_uploads := orm_save upload_id (image_uploads d) image_upload\<rparr>
                in case detect (file_path image_upload) of
                     Inl msg \<Rightarrow> (False, mark_failed d1 image_id msg)
                   | Inr results \<Rightarrow>
                       (case record_results pf now d1 image_upload batch results of
                          Inl (msg, d2) \<Rightarrow> (False, mark_failed d2 image_id msg)
                        | Inr d2 \<Rightarrow> (True, d2)))))"

text \<open>
  \<open>process_image_with_yolo\<close>, the Celery task (\<open>max_retries=3\<close>). One execution ends or
  asks for a retry after a countdown in seconds; \<open>retries\<close> is \<open>self.request.retries\<close>.
\<close>

definition max_retries :: nat where
  "max_retries = 3"

datatype task_outcome = Task_done | Task_retry nat

definition retry_logic :: "nat \<Rightarrow> task_outcome" where
  "retry_logic retries =
     (if retries < max_retries then Task_retry (60 * (retries + 1)) else Task_done)"

definition process_image_with_yolo ::
    "platform \<Rightarrow> detector \<Rightarrow> nat \<Rightarrow> nat \<Rightarrow> db \<Rightarrow> uuid \<Rightarrow> task_outcome \<times> db" where
  "process_image_with_yolo pf detect now retries d image_id =
     (case orm_get upload_id (image_uploads d) image_id of
        Inl _ \<Rightarrow> (Task_done, d)
      | Inr image_upload0 \<Rightarrow>
          (case orm_get ubatch_id (upload_batches d) (upload_batch image_upload0) of
             Inl _ \<Rightarrow> (retry_logic retries,
                       mark_failed d image_id ''UploadBatch matching query does not exist.'')
           | Inr batch \<Rightarrow>
               (let image_upload = image_upload0\<lparr>upload_status := processing\<rparr>;
                    d1 = d\<lparr>image_uploads := orm_save upload_id (image_uploads d) image_upload\<rparr>
                in case detect (file_path image_upload) of
                     Inl msg \<Rightarrow> (retry_logic retries, mark_failed d1 image_id msg)
                   | Inr results \<Rightarrow>
                       (case record_results pf now d1 image_upload batch results of
                          Inl (msg, d2) \<Rightarrow> (retry_logic retries, mark_failed d2 image_id msg)
                        | Inr d2 \<Rightarrow> (Task_done, d2)))))"

text \<open>
  The worker: a task that asked for a retry is executed again with \<open>retries\<close> one higher,
  as long as \<open>max_retries\<close> allows. The detector may answer differently at each execution,
  so it is indexed by \<open>retries\<close>. The result is the list of the countdowns waited and the
  final state.
\<close>

function run_task ::
    "platform \<Rightarrow> (nat \<Rightarrow> detector) \<Rightarrow> nat \<Rightarrow> nat \<Rightarrow> db \<Rightarrow> uuid \<Rightarrow> nat list \<times> db" where
  "run_task pf detect now retries d image_id =
     (case process_image_with_yolo pf (detect retries) now retries d image_id of
        (Task_done, d') \<Rightarrow> ([], d')
      | (Task_retry countdown, d') \<Rightarrow>
          (if retries < max_retries
           then (case run_task pf detect now (Suc retries) d' image_id of
                   (countdowns, d'') \<Rightarrow> (countdown # countdowns, d''))
           else ([countdown], d')))"
  by pat_completeness auto
termination
  by (relation "measure (\<lambda>(pf, detect, now, retries, d, image_id). max_retries - retries)") auto

declare run_task.simps [simp del]

section \<open>images/views.py\<close>

text \<open>
  The loop of \<open>process_batch_with_yolo\<close> over the images read by the query, with the
  view's batch instance, the stored state and the two counters. The view's instance is
  not read again inside the loop, and the task works on instances of its own. The
  handler around the synchronous call is not reached: \<open>process_image_with_yolo_sync\<close>
  catches every exception itself.
\<close>

fun process_images :: "platform \<Rightarrow> detector \<Rightarrow> nat \<Rightarrow> bool \<Rightarrow> ImageUpload list
    \<Rightarrow> UploadBatch \<times> db \<times> int \<times> int \<Rightarrow> UploadBatch \<times> db \<times> int \<times> int" where
  "process_images pf detect now use_async [] st = st"
| "process_images pf detect now use_async (img # rest) (batch, d, processed_count, failed_count) =
     (let batch1 = (if upload_status img = failed
                    then batch\<lparr>failed_files := max 0 (failed_files batch - 1)\<rparr> else batch);
          image1 = (if upload_status img = failed
                    then img\<lparr>error_message := None\<rparr> else img)\<lparr>upload_status := uploaded\<rparr>;
          d1 = d\<lparr>image_uploads := orm_save upload_id (image_uploads d) image1\<rparr>
      in if use_async
         then process_images pf detect now use_async rest
                (batch1, d1\<lparr>task_queue := task_queue d1 @ [upload_id img]\<rparr>,
                 processed_count + 1, failed_count)
         else (case process_image_with_yolo_sync pf detect now d1 (upload_id img) of
                 (success, d2) \<Rightarrow>
                   if success
                   then process_images pf detect now use_async rest
                          (batch1, d2, processed_count + 1, failed_count)
                   else process_images pf detect now use_async rest
                          (batch1, d2, processed_count, failed_count + 1)))"

text \<open>
  The responses of \<open>process_batch_with_yolo\<close>: an error with its HTTP status, nothing to
  process, and the two success messages with \<open>processing_count\<close> and \<open>failed_count\<close>.
\<close>

datatype process_response =
    Process_error nat
  | No_images_to_process
  | Processing_started int int
  | Processing_completed int int

definition process_batch_with_yolo ::
    "platform \<Rightarrow> detector \<Rightarrow> nat \<Rightarrow> bool \<Rightarrow> db \<Rightarrow> user \<Rightarrow> uuid \<Rightarrow> process_response \<times> db" where
  "process_batch_with_yolo pf detect now use_async d request_user batch_id =
     (case find (\<lambda>b. ubatch_id b = batch_id \<and> ubatch_user b = request_user) (upload_batches d) of
        None \<Rightarrow> (Process_error 404, d)
      | Some batch0 \<Rightarrow>
          if ubatch_status batch0 \<notin> set [Uploading, Completed, Failed]
          then (Process_error 400, d)
          else
            (let processable_images =
                   filter (\<lambda>i. upload_status i \<in> set [uploaded, failed])
                     (upload_batch_images (ubatch_id batch0) d)
             in if processable_images = [] then (No_images_to_process, d)
                else
                  (let batch1 = batch0\<lparr>ubatch_status := Processing\<rparr>;
                       d1 = d\<lparr>upload_batches := orm_save ubatch_id (upload_batches d) batch1\<rparr>
                   in case process_images pf detect now use_async processable_images (batch1, d1, 0, 0) of
                        (batch2, d2, processed_count, failed_count) \<Rightarrow>
                          (let d3 = d2\<lparr>upload_batches :=
                                        orm_save ubatch_id (upload_batches d2) batch2\<rparr>
                           in if \<not> use_async
                                 \<and> processed_files batch2 + failed_files batch2 \<ge> uploaded_files batch2
                              then (Processing_completed processed_count failed_count,
                                    d3\<lparr>upload_batches := orm_save ubatch_id (upload_batches d3)
                                         (batch2\<lparr>ubatch_status := Completed,
                                                 completed_at := Some now\<rparr>)\<rparr>)
                              else if use_async
                              then (Processing_started processed_count failed_count, d3)
                              else (Processing_completed processed_count failed_count, d3)))))"

text \<open>
  \<open>upload_image\<close>. The request carries the user, the two form fields and the file, each
  possibly absent. What the view takes from its surroundings is a parameter: how the
  text of a batch id is read as a key (a malformed one raises, which the outer handler
  turns into 500), the extension \<open>os.path.splitext\<close> finds, the name the storage gives
  the file (another one when the name is taken), the key of the new row, and whether
  the backend accepts the values of the new row (the lengths of \<open>file_id\<close> and
  \<open>file_path\<close>, which SQLite does not check).
\<close>

record uploaded_file =
  file_name :: string
  upload_size :: int
  content_type :: string

record upload_request =
  request_user :: user
  post_batch_id :: "string option"
  post_file_id :: "string option"
  files_file :: "uploaded_file option"

record upload_env =
  parse_uuid :: "string \<Rightarrow> uuid option"
  splitext_ext :: "string \<Rightarrow> string"
  available_name :: "string list \<Rightarrow> string \<Rightarrow> string"
  new_upload_id :: uuid
  accepts_upload :: "ImageUpload \<Rightarrow> bool"

datatype upload_response = Upload_error nat string | Upload_ok uuid

definition allowed_types :: "string list" where
  "allowed_types = [''image/jpeg'', ''image/png'', ''image/webp'', ''image/bmp'']"

definition upload_image :: "upload_env \<Rightarrow> db \<Rightarrow> upload_request \<Rightarrow> upload_response \<times> db" where
  "upload_image env d request =
     (case (post_batch_id request, post_file_id request, files_file request) of
        (Some batch_id, Some the_file_id, Some uploaded_file) \<Rightarrow>
          if batch_id = [] \<or> the_file_id = [] \<or> file_name uploaded_file = []
          then (Upload_error 400 ''Missing required fields'', d)
          else if upload_size uploaded_file > 10 * 1024 * 1024
          then (Upload_error 400 ''File too large. Maximum size is 10MB'', d)
          else if content_type uploaded_file \<notin> set allowed_types
          then (Upload_error 400 ''Invalid file type'', d)
          else
            (case parse_uuid env batch_id of
               None \<Rightarrow> (Upload_error 500 ''Upload failed. Please try again.'', d)
             | Some k \<Rightarrow>
                 (case find (\<lambda>b. ubatch_id b = k \<and> ubatch_user b = request_user request)
                         (upload_batches d) of
                    None \<Rightarrow> (Upload_error 404 ''Batch not found'', d)
                  | Some batch \<Rightarrow>
                      (let unique_filename =
                             batch_id @ ''/'' @ the_file_id @ splitext_ext env (file_name uploaded_file);
                           path = available_name env (storage d) unique_filename;
                           d1 = d\<lparr>storage := path # storage d\<rparr>;
                           image_upload =
                             \<lparr>upload_id = new_upload_id env, upload_batch = ubatch_id batch,
                              file_id = the_file_id, original_filename = file_name uploaded_file,
                              file_path = path, file_size = upload_size uploaded_file,
                              mime_type = content_type uploaded_file, upload_status = uploaded,
                              yolo_keypoints = None, keypoints_count = 0,
                              avg_keypoint_confidence = None,
                              error_message = None, processed_at = None\<rparr>
                       in case orm_create upload_id (accepts_upload env image_upload) True
                                 (image_uploads d1) image_upload of
                            Inl _ \<Rightarrow> (Upload_error 500 ''Upload failed. Please try again.'', d1)
                          | Inr tbl \<Rightarrow>
                              (let d2 = d1\<lparr>image_uploads := tbl\<rparr>;
                                   batch1 = batch\<lparr>uploaded_files := uploaded_files batch + 1\<rparr>;
                                   batch2 = (if ubatch_status batch1 = Pending
                                             then batch1\<lparr>ubatch_status := Uploading\<rparr> else batch1)
                               in (Upload_ok (upload_id image_upload),
                                   d2\<lparr>upload_batches :=
                                        orm_save ubatch_id (upload_batches d2) batch2\<rparr>)))))
      | _ \<Rightarrow> (Upload_error 400 ''Missing required fields'', d))"

section \<open>Notions used in the statements\<close>



text \<open>The number of the annotations of an assignment that are in SUBMITTED status.\<close>

definition submitted_count :: "BatchAssignment \<Rightarrow> Annotation list \<Rightarrow> int" where
  "submitted_count a tbl =
     int (length (filter (\<lambda>x. annotation_status x = ANN_SUBMITTED) (assignment_annotations a tbl)))"

text \<open>
  Inputs for the evaluations below: an upload as \<open>upload_image\<close> creates it, a batch of
  five uploaded images (newest first), and a detector that raises on one path and finds
  nothing on every other.
\<close>

definition fresh_upload :: "uuid \<Rightarrow> uuid \<Rightarrow> string \<Rightarrow> ImageUpload" where
  "fresh_upload k b path =
     \<lparr>upload_id = k, upload_batch = b, file_id = path, original_filename = path,
      file_path = path, file_size = 1000, mime_type = ''image/jpeg'', upload_status = uploaded,
      yolo_keypoints = None, keypoints_count = 0, avg_keypoint_confidence = None,
      error_message = None, processed_at = None\<rparr>"

definition batch_of_five :: UploadBatch where
  "batch_of_five = \<lparr>ubatch_id = 1, ubatch_user = 1, total_files = 5, uploaded_files = 5,
     processed_files = 0, failed_files = 0, ubatch_status = Uploading, completed_at = None\<rparr>"

definition five_uploads :: db where
  "five_uploads = \<lparr>upload_batches = [batch_of_five],
     image_uploads = [fresh_upload 5 1 ''e'', fresh_upload 4 1 ''d'', fresh_upload 3 1 ''c'',
                      fresh_upload 2 1 ''b'', fresh_upload 1 1 ''a''],
     legacy_annotations = [], storage = [''e'', ''d'', ''c'', ''b'', ''a''], task_queue = []\<rparr>"

definition fails_on :: "string \<Rightarrow> detector" where
  "fails_on bad path = (if path = bad then Inl ''detection failed'' else Inr [])"

text \<open>
  A platform whose float operations are exact and whose backend accepts every legacy
  row. The detector above finds nothing, so no float operation takes place and no legacy
  row is created with it.
\<close>

definition exact_platform :: platform where
  "exact_platform = \<lparr>float_round = (\<lambda>x. x), accepts_detection = (\<lambda>r. True)\<rparr>"


section \<open>Batch progress counters\<close>

lemma count_split_approved_rejected:
  "count_status_in [APPROVED, REJECTED] imgs =
   count_status_in [APPROVED] imgs + count_status_in [REJECTED] imgs"
  unfolding count_status_in_def by (induction imgs) auto

lemma count_assigned_plus_completed:
  "count_status_in [ASSIGNED, IN_PROGRESS, ANNOTATED, SUBMITTED] imgs
     + count_status_in [APPROVED, REJECTED] imgs \<le> int (length imgs)"
  unfolding count_status_in_def by (induction imgs) auto

lemma count_status_in_nonneg: "0 \<le> count_status_in ss imgs"
  by (simp add: count_status_in_def)

text \<open>
  C2 (as amended). After \<open>ImageBatch.update_progress\<close> the completed counter is the sum of the
  approved and the rejected counter, and the assigned and completed counters together
  are bounded by the number of child Image rows of the batch. The bound by
  \<open>total_images\<close> holds when the batch has at most \<open>total_images\<close> child rows.
\<close>

theorem update_progress_counters:
  "completed_count (ImageBatch_update_progress b tbl)
     = approved_count (ImageBatch_update_progress b tbl) + rejected_count (ImageBatch_update_progress b tbl)
   \<and> assigned_count (ImageBatch_update_progress b tbl) + completed_count (ImageBatch_update_progress b tbl)
       \<le> int (length (batch_images b tbl))
   \<and> (int (length (batch_images b tbl)) \<le> total_images b
        \<longrightarrow> assigned_count (ImageBatch_update_progress b tbl) \<le> total_images (ImageBatch_update_progress b tbl))"
proof -
  let ?imgs = "batch_images b tbl"
  have sum: "count_status_in [APPROVED, REJECTED] ?imgs
      = count_status_in [APPROVED] ?imgs + count_status_in [REJECTED] ?imgs"
    by (rule count_split_approved_rejected)
  have bound: "count_status_in [ASSIGNED, IN_PROGRESS, ANNOTATED, SUBMITTED] ?imgs
      + count_status_in [APPROVED, REJECTED] ?imgs \<le> int (length ?imgs)"
    by (rule count_assigned_plus_completed)
  have nonneg: "0 \<le> count_status_in [APPROVED, REJECTED] ?imgs"
    by (rule count_status_in_nonneg)
  from sum bound nonneg show ?thesis
    by (simp add: ImageBatch_update_progress_def Let_def)
qed

text \<open>
  A batch declared with one image that owns two rows, both assigned: the theorem at this
  input, where the hypothesis of its last part fails, and at a batch of two.
\<close>

definition batch_of_one :: ImageBatch where
  "batch_of_one = \<lparr>imagebatch_pk = 1, total_images = 1, assigned_count = 0,
     completed_count = 0, approved_count = 0, rejected_count = 0\<rparr>"

definition two_assigned :: "Image list" where
  "two_assigned = [\<lparr>image_pk = 1, image_batch = 1, image_status = ASSIGNED\<rparr>,
                   \<lparr>image_pk = 2, image_batch = 1, image_status = ASSIGNED\<rparr>]"

theorem update_progress_counters_witness:
  "int (length (batch_images (batch_of_one\<lparr>total_images := 2\<rparr>) two_assigned))
      \<le> total_images (batch_of_one\<lparr>total_images := 2\<rparr>)
   \<and> assigned_count (ImageBatch_update_progress (batch_of_one\<lparr>total_images := 2\<rparr>) two_assigned) = 2
   \<and> assigned_count (ImageBatch_update_progress (batch_of_one\<lparr>total_images := 2\<rparr>) two_assigned)
       \<le> total_images (ImageBatch_update_progress (batch_of_one\<lparr>total_images := 2\<rparr>) two_assigned)"
  using update_progress_counters [of "batch_of_one\<lparr>total_images := 2\<rparr>" two_assigned]
  by (simp add: ImageBatch_update_progress_def batch_images_def count_status_in_def
      batch_of_one_def two_assigned_def)

theorem update_progress_assigned_counterexample:
  "assigned_count (ImageBatch_update_progress batch_of_one two_assigned) = 2
   \<and> total_images (ImageBatch_update_progress batch_of_one two_assigned) = 1
   \<and> \<not> assigned_count (ImageBatch_update_progress batch_of_one two_assigned)
         \<le> total_images (ImageBatch_update_progress batch_of_one two_assigned)"
  by (simp add: ImageBatch_update_progress_def batch_images_def count_status_in_def
      batch_of_one_def two_assigned_def)

section \<open>Facts about the ORM operations\<close>


lemma orm_get_Inr_iff: "orm_get pk tbl k = Inr r \<longleftrightarrow> find (\<lambda>r. pk r = k) tbl = Some r"
  by (simp add: orm_get_def split: option.splits)

lemma find_map_replace:
  "find (\<lambda>r. pk r = k) tbl = Some r0 \<Longrightarrow> pk r = k \<Longrightarrow>
   find (\<lambda>r. pk r = k) (map (\<lambda>row. if pk row = k then r else row) tbl) = Some r"
  by (induction tbl) (auto split: if_splits)

lemma find_Some_mem: "find P xs = Some x \<Longrightarrow> x \<in> set xs \<and> P x"
  by (induction xs) (auto split: if_splits)

lemma orm_get_save:
  assumes "orm_get pk tbl k = Inr r0" and "pk r = k"
  shows "orm_get pk (orm_save pk tbl r) k = Inr r"
proof -
  from assms(1) have f: "find (\<lambda>r. pk r = k) tbl = Some r0" by (simp add: orm_get_Inr_iff)
  then have "r0 \<in> set tbl" "pk r0 = k" using find_Some_mem [OF f] by auto
  then have "pk r \<in> set (map pk tbl)" using assms(2) by force
  then show ?thesis using find_map_replace [OF f assms(2)] assms(2)
    by (simp add: orm_save_def orm_get_def)
qed

lemma Annotation_create_iff:
  "Annotation_create be db a = Inr db'
     \<longleftrightarrow> Annotation_fits be a \<and> annotation_id a \<notin> set (map annotation_id (annotation_table db))
         \<and> Annotation_constraints db a \<and> db' = db\<lparr>annotation_table := a # annotation_table db\<rparr>"
  by (auto simp: Annotation_create_def orm_create_def)


lemma optional_required:
  "optional_in_range be x \<and> x \<noteq> None \<longleftrightarrow> (\<exists>n. x = Some n \<and> in_integer_range be n)"
  by (cases x) (simp_all add: optional_in_range_def)


section \<open>The Image workflow status\<close>

text \<open>
  C1 (as amended). The Image model declares the ten statuses of the chain and enforces
  no transition table: writing a status to a stored Image succeeds whatever its current
  status, and the value written is the one read back. The one transition guard of the
  model, \<open>can_be_assigned\<close>, holds exactly for the statuses from which the table of
  section 4.2 allows the step to \<open>ASSIGNED\<close>.
\<close>

theorem Image_status_unguarded:
  "(orm_get image_pk tbl k = Inr img \<longrightarrow>
      Image_set_status tbl k s = Inr (orm_save image_pk tbl (img\<lparr>image_status := s\<rparr>))
      \<and> orm_get image_pk (orm_save image_pk tbl (img\<lparr>image_status := s\<rparr>)) k
          = Inr (img\<lparr>image_status := s\<rparr>))
   \<and> (can_be_assigned img \<longleftrightarrow> spec_transition (image_status img) ASSIGNED)"
proof -
  have a: "can_be_assigned img \<longleftrightarrow> spec_transition (image_status img) ASSIGNED"
    by (cases "image_status img") (simp_all add: can_be_assigned_def)
  have b: "orm_get image_pk tbl k = Inr img \<Longrightarrow>
      orm_get image_pk (orm_save image_pk tbl (img\<lparr>image_status := s\<rparr>)) k
          = Inr (img\<lparr>image_status := s\<rparr>)"
  proof -
    assume g: "orm_get image_pk tbl k = Inr img"
    then have "image_pk img = k"
      using find_Some_mem [of "\<lambda>r. image_pk r = k" tbl img] by (simp add: orm_get_Inr_iff)
    then have "image_pk (img\<lparr>image_status := s\<rparr>) = k" by simp
    from orm_get_save [OF g this] show ?thesis .
  qed
  show ?thesis using a b by (simp add: Image_set_status_def)
qed

text \<open>A table with one uploaded image; the write \<open>UPLOADED \<rightarrow> SUBMITTED\<close> is stored.\<close>

definition one_uploaded :: "Image list" where
  "one_uploaded = [\<lparr>image_pk = 1, image_batch = 1, image_status = UPLOADED\<rparr>]"

theorem Image_status_unguarded_witness:
  "orm_get image_pk one_uploaded 1 = Inr \<lparr>image_pk = 1, image_batch = 1, image_status = UPLOADED\<rparr>
   \<and> Image_set_status one_uploaded 1 YOLO_PROCESSED
       = Inr [\<lparr>image_pk = 1, image_batch = 1, image_status = YOLO_PROCESSED\<rparr>]
   \<and> \<not> can_be_assigned \<lparr>image_pk = 1, image_batch = 1, image_status = UPLOADED\<rparr>"
  using Image_status_unguarded [of one_uploaded 1
      "\<lparr>image_pk = 1, image_batch = 1, image_status = UPLOADED\<rparr>" YOLO_PROCESSED]
  by (simp add: one_uploaded_def orm_get_def orm_save_def)

theorem Image_transition_counterexample:
  "\<not> spec_transition UPLOADED SUBMITTED
   \<and> Image_set_status one_uploaded 1 SUBMITTED
       = Inr [\<lparr>image_pk = 1, image_batch = 1, image_status = SUBMITTED\<rparr>]"
  by (simp add: one_uploaded_def Image_set_status_def orm_get_def orm_save_def)


section \<open>One Verification for each Annotation\<close>

text \<open>
  A workflow state for the evaluations: two users, image 5, assignment 9, and the
  annotations and verifications given. The backend is one with 64-bit integer columns.
\<close>

definition sqlite :: backend where
  "sqlite = \<lparr>integer_min = - (2 ^ 63), integer_max = 2 ^ 63 - 1\<rparr>"

definition image_five :: Image where
  "image_five = \<lparr>image_pk = 5, image_batch = 1, image_status = IN_PROGRESS\<rparr>"

definition assignment_of_four :: BatchAssignment where
  "assignment_of_four =
     \<lparr>assignment_id = 9, progress_percentage = 0, images_completed = 0, images_total = 4\<rparr>"



definition workflow_with :: "Annotation list \<Rightarrow> Verification list \<Rightarrow> workflow_db" where
  "workflow_with anns vers = \<lparr>user_table = [3, 4], image_table = [image_five],
     assignment_table = [assignment_of_four], annotation_table = anns,
     verification_table = vers\<rparr>"







section \<open>Annotations of an image\<close>

lemma find_cons_other: "pk a \<noteq> k \<Longrightarrow> orm_get pk (a # tbl) k = orm_get pk tbl k"
  by (simp add: orm_get_def)




text \<open>
  C6 (as amended). Where the other columns are acceptable, an Annotation is accepted
  exactly when its version fits the integer column and its original annotation is
  absent, stored, or the new row itself. An accepted Annotation is stored with the
  version, the revision flag and the original annotation supplied, and no other row
  changes; left out, they are version 1, no revision and no original. The model
  computes neither a next version nor a root.
\<close>

theorem Annotation_lineage_as_supplied:
  "(annotation_id a \<notin> set (map annotation_id (annotation_table db))
      \<and> refined_keypoints a \<noteq> None
      \<and> (\<exists>t. time_spent_seconds a = Some t \<and> in_integer_range be t)
      \<and> annotation_image a \<in> set (map image_pk (image_table db))
      \<and> batch_assignment a \<in> set (map assignment_id (assignment_table db))
    \<longrightarrow> ((\<exists>x. Annotation_create be db a = Inr x) \<longleftrightarrow>
           in_integer_range be (version a)
           \<and> (\<forall>k. original_annotation a = Some k \<longrightarrow>
                  k \<in> set (map annotation_id (annotation_table db)) \<or> k = annotation_id a)))
   \<and> (Annotation_create be db a = Inr db' \<longrightarrow>
        orm_get annotation_id (annotation_table db') (annotation_id a) = Inr a
        \<and> (\<forall>k. k \<noteq> annotation_id a \<longrightarrow>
              orm_get annotation_id (annotation_table db') k
                = orm_get annotation_id (annotation_table db) k))
   \<and> version (Annotation_defaults k0 i0 g0 kp0 s0) = 1
   \<and> \<not> is_revision (Annotation_defaults k0 i0 g0 kp0 s0)
   \<and> original_annotation (Annotation_defaults k0 i0 g0 kp0 s0) = None"
proof -
  have opt: "(case original_annotation a of None \<Rightarrow> True
             | Some k \<Rightarrow> k \<in> set (map annotation_id (annotation_table db)) \<or> k = annotation_id a)
      \<longleftrightarrow> (\<forall>k. original_annotation a = Some k \<longrightarrow>
             k \<in> set (map annotation_id (annotation_table db)) \<or> k = annotation_id a)"
    by (cases "original_annotation a") simp_all
  have one: "(\<exists>x. Annotation_create be db a = Inr x) \<longleftrightarrow>
           in_integer_range be (version a)
           \<and> (\<forall>k. original_annotation a = Some k \<longrightarrow>
                  k \<in> set (map annotation_id (annotation_table db)) \<or> k = annotation_id a)"
    if "annotation_id a \<notin> set (map annotation_id (annotation_table db))"
      "refined_keypoints a \<noteq> None"
      "\<exists>t. time_spent_seconds a = Some t \<and> in_integer_range be t"
      "annotation_image a \<in> set (map image_pk (image_table db))"
      "batch_assignment a \<in> set (map assignment_id (assignment_table db))"
    using that
    unfolding Annotation_create_iff Annotation_fits_def Annotation_constraints_def opt
      optional_required [symmetric]
    by blast
  have two: "orm_get annotation_id (annotation_table db') (annotation_id a) = Inr a
        \<and> (\<forall>k. k \<noteq> annotation_id a \<longrightarrow>
              orm_get annotation_id (annotation_table db') k
                = orm_get annotation_id (annotation_table db) k)"
    if "Annotation_create be db a = Inr db'"
    using that by (simp add: Annotation_create_iff orm_get_def)
  show ?thesis using one two by (simp add: Annotation_defaults_def)
qed

text \<open>
  A root and two revisions of image 5, the second revision pointing at the first and
  repeating its version: all three are accepted. An original that is not stored and a
  version of \<open>2 ^ 63\<close> are refused.
\<close>

definition root_annotation :: Annotation where
  "root_annotation = Annotation_defaults 1 5 9 ''{}'' 60"

definition first_revision :: Annotation where
  "first_revision = (Annotation_defaults 2 5 9 ''{}'' 60)
     \<lparr>version := 2, is_revision := True, original_annotation := Some 1\<rparr>"

definition second_revision :: Annotation where
  "second_revision = (Annotation_defaults 3 5 9 ''{}'' 60)
     \<lparr>version := 2, is_revision := True, original_annotation := Some 2\<rparr>"

theorem Annotation_lineage_as_supplied_witness:
  "Annotation_create sqlite (workflow_with [first_revision, root_annotation] []) second_revision
     = Inr (workflow_with [second_revision, first_revision, root_annotation] [])
   \<and> orm_get annotation_id [second_revision, first_revision, root_annotation] 3
       = Inr second_revision
   \<and> orm_get annotation_id [second_revision, first_revision, root_annotation] 1
       = Inr root_annotation
   \<and> Annotation_create sqlite (workflow_with [] [])
        (root_annotation\<lparr>original_annotation := Some 99\<rparr>) = Inl IntegrityError
   \<and> Annotation_create sqlite (workflow_with [] []) (root_annotation\<lparr>version := 2 ^ 63\<rparr>)
       = Inl OutOfRange"
proof -
  have c: "Annotation_create sqlite (workflow_with [first_revision, root_annotation] [])
      second_revision = Inr (workflow_with [second_revision, first_revision, root_annotation] [])"
    by code_simp
  have e: "Annotation_create sqlite (workflow_with [] [])
        (root_annotation\<lparr>original_annotation := Some 99\<rparr>) = Inl IntegrityError"
    "Annotation_create sqlite (workflow_with [] []) (root_annotation\<lparr>version := 2 ^ 63\<rparr>)
       = Inl OutOfRange"
    by code_simp+
  from Annotation_lineage_as_supplied
    [of second_revision "workflow_with [first_revision, root_annotation] []" sqlite
       "workflow_with [second_revision, first_revision, root_annotation] []"] c e
  show ?thesis
    by (simp add: workflow_with_def root_annotation_def first_revision_def
        second_revision_def Annotation_defaults_def orm_get_def)
qed

theorem Annotation_lineage_counterexample:
  "Annotation_create sqlite (workflow_with [] []) root_annotation
     = Inr (workflow_with [root_annotation] [])
   \<and> Annotation_create sqlite (workflow_with [root_annotation] []) first_revision
       = Inr (workflow_with [first_revision, root_annotation] [])
   \<and> Annotation_create sqlite (workflow_with [first_revision, root_annotation] [])
        second_revision
       = Inr (workflow_with [second_revision, first_revision, root_annotation] [])
   \<and> version root_annotation = 1
   \<and> original_annotation first_revision = Some (annotation_id root_annotation)
   \<and> original_annotation second_revision = Some (annotation_id first_revision)
   \<and> original_annotation second_revision \<noteq> Some (annotation_id root_annotation)
   \<and> spec_prior_max_version 5 [first_revision, root_annotation] = 2
   \<and> version second_revision \<noteq> spec_prior_max_version 5 [first_revision, root_annotation] + 1"
  by code_simp


section \<open>Decimal columns\<close>

lemma round_half_even_bound: "\<bar>of_int (round_half_even x) - x\<bar> \<le> 1 / 2"
proof -
  define r where "r = x - of_int \<lfloor>x\<rfloor>"
  have r: "0 \<le> r" "r < 1" unfolding r_def by linarith+
  have x: "x = of_int \<lfloor>x\<rfloor> + r" by (simp add: r_def)
  have "round_half_even x = \<lfloor>x\<rfloor> \<and> r \<le> 1 / 2 \<or> round_half_even x = \<lfloor>x\<rfloor> + 1 \<and> 1 / 2 \<le> r"
    unfolding round_half_even_def Let_def r_def [symmetric] by auto
  then show ?thesis
  proof
    assume a: "round_half_even x = \<lfloor>x\<rfloor> \<and> r \<le> 1 / 2"
    then have "of_int (round_half_even x) - x = - r" using x by simp
    then show ?thesis using a r by simp
  next
    assume a: "round_half_even x = \<lfloor>x\<rfloor> + 1 \<and> 1 / 2 \<le> r"
    then have "of_int (round_half_even x) - x = 1 - r" using x by simp
    then show ?thesis using a r by simp
  qed
qed

lemma round_half_even_of_int: "round_half_even (of_int n) = n"
  by (simp add: round_half_even_def Let_def)

lemma decimal_unit_bounds: "0 \<le> u \<Longrightarrow> 0 \<le> decimal_unit n t u x \<and> decimal_unit n t u x \<le> u"
proof (induction n arbitrary: t u)
  case 0
  then show ?case by simp
next
  case (Suc n)
  have "0 \<le> u / 10" using Suc.prems by simp
  from Suc.IH [OF this, of "t / 10"] Suc.prems show ?case by auto
qed

lemma round_to_unit:
  assumes "0 < u"
  shows "\<bar>of_int (round_half_even (x / u)) * u - x\<bar> \<le> u / 2"
proof -
  have "of_int (round_half_even (x / u)) * u - x = (of_int (round_half_even (x / u)) - x / u) * u"
    using assms by (simp add: field_simps)
  then have "\<bar>of_int (round_half_even (x / u)) * u - x\<bar>
      = \<bar>of_int (round_half_even (x / u)) - x / u\<bar> * u"
    using assms by (simp add: abs_mult)
  also have "\<dots> \<le> (1 / 2) * u"
    using round_half_even_bound [of "x / u"] assms by (intro mult_right_mono) simp_all
  finally show ?thesis by simp
qed

lemma create_decimal_bound:
  "\<bar>create_decimal m dp x - x\<bar> \<le> 1 / (2 * 10 ^ dp)"
proof -
  let ?u = "decimal_unit (Suc m) (10 ^ (m - dp) / 10) (1 / 10 ^ dp) x"
  have b: "0 \<le> ?u" "?u \<le> 1 / 10 ^ dp"
    using decimal_unit_bounds [of "1 / 10 ^ dp" "Suc m" "10 ^ (m - dp) / 10" x] by simp_all
  show ?thesis
  proof (cases "?u = 0")
    case True
    then show ?thesis by (simp add: create_decimal_def Let_def)
  next
    case False
    then have "0 < ?u" using b(1) by simp
    from round_to_unit [OF this, of x] have "\<bar>create_decimal m dp x - x\<bar> \<le> ?u / 2"
      using False by (simp add: create_decimal_def Let_def)
    also have "\<dots> \<le> (1 / 10 ^ dp) / 2" using b(2) by simp
    finally show ?thesis by simp
  qed
qed

lemma quantize_decimal_bound:
  "quantize_decimal m dp r = Inr q \<Longrightarrow> \<bar>q - r\<bar> \<le> 1 / (2 * 10 ^ dp) \<and> \<bar>q\<bar> < 10 ^ (m - dp)
     \<and> q = of_int (round_half_even (r * 10 ^ dp)) / 10 ^ dp"
proof -
  assume a: "quantize_decimal m dp r = Inr q"
  then have q: "q = of_int (round_half_even (r * 10 ^ dp)) / 10 ^ dp" and lt: "\<bar>q\<bar> < 10 ^ (m - dp)"
    by (auto simp: quantize_decimal_def Let_def split: if_splits)
  have "0 < (1::rat) / 10 ^ dp" by simp
  from round_to_unit [OF this, of r] have "\<bar>q - r\<bar> \<le> (1 / 10 ^ dp) / 2"
    by (simp add: q)
  then show ?thesis using q lt by simp
qed

lemma quantize_decimal_small:
  "\<bar>r\<bar> + 1 / (2 * 10 ^ dp) < 10 ^ (m - dp) \<Longrightarrow> \<exists>q. quantize_decimal m dp r = Inr q"
proof -
  assume a: "\<bar>r\<bar> + 1 / (2 * 10 ^ dp) < 10 ^ (m - dp)"
  let ?q = "of_int (round_half_even (r * 10 ^ dp)) / (10::rat) ^ dp"
  have "0 < (1::rat) / 10 ^ dp" by simp
  from round_to_unit [OF this, of r] have "\<bar>?q - r\<bar> \<le> (1 / 10 ^ dp) / 2" by simp
  then have "\<bar>?q\<bar> \<le> \<bar>r\<bar> + 1 / (2 * 10 ^ dp)" by (simp add: abs_le_iff abs_if split: if_splits) 
  then have "\<bar>?q\<bar> < 10 ^ (m - dp)" using a by linarith
  then show ?thesis by (simp add: quantize_decimal_def Let_def)
qed


lemma store_decimal_stores:
  assumes "\<bar>x\<bar> + 1 / 10 ^ dp < 10 ^ (m - dp)"
  shows "\<exists>q. store_decimal m dp x = Inr q \<and> \<bar>q - x\<bar> \<le> 1 / 10 ^ dp
           \<and> q = of_int (round_half_even (create_decimal m dp x * 10 ^ dp)) / 10 ^ dp"
proof -
  let ?r = "create_decimal m dp x"
  have h: "(1::rat) / (2 * 10 ^ dp) + 1 / (2 * 10 ^ dp) = 1 / 10 ^ dp" by (simp add: field_simps)
  have pos: "(0::rat) < 1 / 10 ^ dp" by simp
  have cb: "\<bar>?r - x\<bar> \<le> 1 / (2 * 10 ^ dp)" by (rule create_decimal_bound)
  then have "\<bar>?r\<bar> + 1 / (2 * 10 ^ dp) < 10 ^ (m - dp)" using assms h by linarith
  from quantize_decimal_small [OF this] obtain q where q: "quantize_decimal m dp ?r = Inr q"
    by blast
  note qq = quantize_decimal_bound [OF q]
  have qb: "\<bar>q - ?r\<bar> \<le> 1 / (2 * 10 ^ dp)" using qq by blast
  have qe: "q = of_int (round_half_even (?r * 10 ^ dp)) / 10 ^ dp" using qq by blast
  have "\<bar>q - x\<bar> \<le> 1 / 10 ^ dp" using cb qb h by linarith
  moreover have "\<not> 10 ^ (m - dp) \<le> \<bar>x\<bar>" using assms pos by linarith
  ultimately show ?thesis using q qe by (simp add: store_decimal_def)
qed

lemma round_half_even_ge:
  assumes "of_int n - 1 / 2 < x"
  shows "n \<le> round_half_even x"
proof -
  have "\<bar>of_int (round_half_even x) - x\<bar> \<le> 1 / 2" by (rule round_half_even_bound)
  then have "(of_int n :: rat) - 1 < of_int (round_half_even x)" using assms by linarith
  then have "(of_int (n - 1) :: rat) < of_int (round_half_even x)" by simp
  then have "n - 1 < round_half_even x" by (simp only: of_int_less_iff)
  then show ?thesis by simp
qed

lemma store_decimal_5_2_raises:
  assumes "999999 / 1000 < x"
  shows "store_decimal 5 2 x = Inl InvalidOperation"
proof (cases "1000 \<le> x")
  case True
  then show ?thesis by (simp add: store_decimal_def)
next
  case False
  then have ax: "\<bar>x\<bar> = x" "100 \<le> \<bar>x\<bar>" "\<not> 1000 \<le> \<bar>x\<bar>" using assms by simp_all
  have u: "decimal_unit (Suc 5) (10 ^ (5 - 2) / 10) (1 / 10 ^ 2) x = 1 / 100"
    by (subst decimal_unit.simps(2)) (use ax in simp)
  let ?n = "round_half_even (x / (1 / 100))"
  have r: "create_decimal 5 2 x = of_int ?n * (1 / 100)"
    by (simp only: create_decimal_def Let_def u) simp
  have "of_int (100000::int) - 1 / 2 < x / (1 / 100)" using assms by simp
  from round_half_even_ge [OF this] have n: "100000 \<le> ?n" .
  have "of_int ?n * (1 / 100) * 10 ^ 2 = (of_int ?n :: rat)" by simp
  then have q: "round_half_even (create_decimal 5 2 x * 10 ^ 2) = ?n"
    by (simp only: r round_half_even_of_int)
  have "(1000::rat) \<le> of_int ?n / 100" using n by simp
  then have "quantize_decimal 5 2 (create_decimal 5 2 x) = Inl InvalidOperation"
    unfolding quantize_decimal_def Let_def q by simp
  then show ?thesis using ax by (simp add: store_decimal_def)
qed

lemma float_percentage:
  assumes fl: "double_rounding fl" and y: "0 \<le> y"
  shows "\<bar>fl (fl y * 100) - y * 100\<bar> \<le> 3 * (y * 100) / 2 ^ 53"
proof -
  have a: "\<bar>fl y - y\<bar> \<le> \<bar>y\<bar> / 2 ^ 53" using fl by (simp add: double_rounding_def)
  have b: "\<bar>fl (fl y * 100) - fl y * 100\<bar> \<le> \<bar>fl y * 100\<bar> / 2 ^ 53"
    using fl by (simp add: double_rounding_def)
  have c: "\<bar>fl y * 100\<bar> \<le> 2 * (y * 100)" using a y by (simp add: abs_if split: if_splits)
  show ?thesis using a b c y by (simp add: abs_if split: if_splits)
qed


lemma quantize_decimal_stored:
  assumes "p = of_int n / 100" and "\<bar>p\<bar> < 1000"
  shows "quantize_decimal 5 2 p = Inr p"
proof -
  have "p * 10 ^ 2 = of_int n" using assms(1) by simp
  then have "round_half_even (p * 10 ^ 2) = n" by (simp only: round_half_even_of_int)
  then show ?thesis using assms by (simp add: quantize_decimal_def Let_def)
qed

section \<open>Assignment progress\<close>

text \<open>
  C9 (as amended). With \<open>images_total\<close> positive, \<open>BatchAssignment.update_progress\<close>
  computes \<open>images_completed / images_total * 100\<close> in floats from the number of the
  assignment's annotations in SUBMITTED status. When the exact quotient is at most 999,
  it stores that number as \<open>images_completed\<close> and, as \<open>progress_percentage\<close>, a number of
  two decimals within 0.011 of the quotient. When the quotient is 1000 or more, the save
  raises \<open>InvalidOperation\<close> and nothing is stored. With \<open>images_total\<close> not positive
  it stores \<open>images_completed\<close> and leaves the stored percentage as it was.
\<close>

theorem BatchAssignment_progress:
  assumes "double_rounding fl"
  shows "(0 < images_total a
          \<and> of_int (submitted_count a tbl) / of_int (images_total a) * 100 \<le> (999::rat)
          \<longrightarrow> (\<exists>p. BatchAssignment_update_progress fl a tbl
                     = Inr (a\<lparr>images_completed := submitted_count a tbl,
                              progress_percentage := p\<rparr>)
                \<and> \<bar>p - of_int (submitted_count a tbl) / of_int (images_total a) * 100\<bar>
                    < 11 / 1000
                \<and> (\<exists>n. p = of_int n / 100)))
     \<and> (0 < images_total a
          \<and> (1000::rat) \<le> of_int (submitted_count a tbl) / of_int (images_total a) * 100
          \<longrightarrow> BatchAssignment_update_progress fl a tbl = Inl InvalidOperation)
     \<and> (\<not> 0 < images_total a \<and> (\<exists>n. progress_percentage a = of_int n / 100)
          \<and> \<bar>progress_percentage a\<bar> < 1000
          \<longrightarrow> BatchAssignment_update_progress fl a tbl
                = Inr (a\<lparr>images_completed := submitted_count a tbl\<rparr>))"
proof -
  let ?c = "submitted_count a tbl"
  let ?y = "(of_int ?c :: rat) / of_int (images_total a)"
  let ?v = "fl (fl ?y * 100)"
  have c0: "0 \<le> ?c" by (simp add: submitted_count_def)
  have run: "BatchAssignment_update_progress fl a tbl
      = (case (if images_total a > 0 then store_decimal 5 2 ?v
               else quantize_decimal 5 2 (progress_percentage a)) of
           Inl e \<Rightarrow> Inl e
         | Inr p \<Rightarrow> Inr (a\<lparr>images_completed := ?c, progress_percentage := p\<rparr>))"
    unfolding BatchAssignment_update_progress_def submitted_count_def Let_def by (rule refl)
  have fp: "\<bar>?v - ?y * 100\<bar> \<le> 3 * (?y * 100) / 2 ^ 53" if "0 < images_total a"
  proof -
    have "0 \<le> ?y" using c0 that by simp
    from float_percentage [OF assms this] show ?thesis .
  qed
  have one: "\<exists>p. BatchAssignment_update_progress fl a tbl
                     = Inr (a\<lparr>images_completed := ?c, progress_percentage := p\<rparr>)
                \<and> \<bar>p - ?y * 100\<bar> < 11 / 1000 \<and> (\<exists>n. p = of_int n / 100)"
    if t: "0 < images_total a" and q: "?y * 100 \<le> 999"
  proof -
    have y0: "0 \<le> ?y * 100" using c0 t by simp
    have e: "\<bar>?v - ?y * 100\<bar> \<le> 1 / 10000" using fp [OF t] q y0 by simp
    then have "\<bar>?v\<bar> + 1 / 10 ^ 2 < 10 ^ (5 - 2)" using q y0 by (simp add: abs_if split: if_splits)
    from store_decimal_stores [OF this] obtain p where
      p: "store_decimal 5 2 ?v = Inr p" "\<bar>p - ?v\<bar> \<le> 1 / 10 ^ 2"
        "p = of_int (round_half_even (create_decimal 5 2 ?v * 10 ^ 2)) / 10 ^ 2"
      by blast
    have "\<bar>p - ?y * 100\<bar> < 11 / 1000" using p(2) e by (simp add: abs_if split: if_splits)
    moreover have "\<exists>n. p = of_int n / 100" using p(3) by auto
    ultimately show ?thesis using run t p(1) by auto
  qed
  have two: "BatchAssignment_update_progress fl a tbl = Inl InvalidOperation"
    if t: "0 < images_total a" and q: "1000 \<le> ?y * 100"
  proof -
    have "999999 / 1000 < ?v" using fp [OF t] q by (simp add: abs_if split: if_splits)
    from store_decimal_5_2_raises [OF this] show ?thesis using run t by simp
  qed
  have three: "BatchAssignment_update_progress fl a tbl = Inr (a\<lparr>images_completed := ?c\<rparr>)"
    if t: "\<not> 0 < images_total a" and n: "\<exists>n. progress_percentage a = of_int n / 100"
      and b: "\<bar>progress_percentage a\<bar> < 1000"
  proof -
    from n obtain k where "progress_percentage a = of_int k / 100" by blast
    from quantize_decimal_stored [OF this b] show ?thesis using run t by simp
  qed
  show ?thesis using one two three by blast
qed

text \<open>
  An assignment of four images with one submitted annotation is at 25 percent. With
  \<open>images_total = 1\<close> and ten submitted annotations the quotient is 1000, and with
  \<open>images_total = 32\<close> and one submitted annotation it is 3.125, stored as 3.12. The
  numbers 10, 1000, 1 / 32 and 3.125 are doubles, so the float operations are exact there.
\<close>

definition ten_submitted :: "Annotation list" where
  "ten_submitted = map (\<lambda>k. (Annotation_defaults k 5 9 ''{}'' 60)
                              \<lparr>annotation_status := ANN_SUBMITTED\<rparr>) [1..<11]"

definition one_submitted :: "Annotation list" where
  "one_submitted = [(Annotation_defaults 2 5 9 ''{}'' 60)\<lparr>annotation_status := ANN_SUBMITTED\<rparr>,
                    Annotation_defaults 1 5 9 ''{}'' 60]"

theorem BatchAssignment_progress_witness:
  "double_rounding (\<lambda>x. x)
   \<and> 0 < images_total assignment_of_four
   \<and> of_int (submitted_count assignment_of_four one_submitted)
        / of_int (images_total assignment_of_four) * 100 \<le> (999::rat)
   \<and> BatchAssignment_update_progress (\<lambda>x. x) assignment_of_four one_submitted
       = Inr (assignment_of_four\<lparr>images_completed := 1, progress_percentage := 25\<rparr>)
   \<and> \<not> 0 < images_total (assignment_of_four\<lparr>images_total := 0, progress_percentage := 50\<rparr>)
   \<and> BatchAssignment_update_progress (\<lambda>x. x)
        (assignment_of_four\<lparr>images_total := 0, progress_percentage := 50\<rparr>) one_submitted
       = Inr (assignment_of_four\<lparr>images_total := 0, progress_percentage := 50,
                                 images_completed := 1\<rparr>)
   \<and> (1000::rat) \<le> of_int (submitted_count (assignment_of_four\<lparr>images_total := 1\<rparr>)
                                 ten_submitted)
                      / of_int (images_total (assignment_of_four\<lparr>images_total := 1\<rparr>)) * 100
   \<and> BatchAssignment_update_progress (\<lambda>x. x) (assignment_of_four\<lparr>images_total := 1\<rparr>)
        ten_submitted = Inl InvalidOperation"
proof -
  have d: "double_rounding (\<lambda>x. x)" by (simp add: double_rounding_def)
  have v: "BatchAssignment_update_progress (\<lambda>x. x) assignment_of_four one_submitted
       = Inr (assignment_of_four\<lparr>images_completed := 1, progress_percentage := 25\<rparr>)"
    "BatchAssignment_update_progress (\<lambda>x. x)
        (assignment_of_four\<lparr>images_total := 0, progress_percentage := 50\<rparr>) one_submitted
       = Inr (assignment_of_four\<lparr>images_total := 0, progress_percentage := 50,
                                 images_completed := 1\<rparr>)"
    by code_simp+
  have s: "submitted_count assignment_of_four one_submitted = 1"
    "submitted_count (assignment_of_four\<lparr>images_total := 1\<rparr>) ten_submitted = 10"
    by code_simp+
  from BatchAssignment_progress [OF d, of "assignment_of_four\<lparr>images_total := 1\<rparr>" ten_submitted]
  have r: "BatchAssignment_update_progress (\<lambda>x. x) (assignment_of_four\<lparr>images_total := 1\<rparr>)
        ten_submitted = Inl InvalidOperation"
    using s by simp
  show ?thesis using d v s r by (simp add: assignment_of_four_def)
qed

theorem BatchAssignment_progress_counterexample:
  "0 < images_total (assignment_of_four\<lparr>images_total := 1\<rparr>)
   \<and> submitted_count (assignment_of_four\<lparr>images_total := 1\<rparr>) ten_submitted = 10
   \<and> (10::rat) / 1 * 100 = 1000
   \<and> BatchAssignment_update_progress (\<lambda>x. x) (assignment_of_four\<lparr>images_total := 1\<rparr>)
        ten_submitted = Inl InvalidOperation
   \<and> submitted_count (assignment_of_four\<lparr>images_total := 32\<rparr>) one_submitted = 1
   \<and> BatchAssignment_update_progress (\<lambda>x. x) (assignment_of_four\<lparr>images_total := 32\<rparr>)
        one_submitted
       = Inr (assignment_of_four\<lparr>images_total := 32, images_completed := 1,
                                 progress_percentage := 312 / 100\<rparr>)
   \<and> (312::rat) / 100 \<noteq> 1 / 32 * 100"
  by code_simp

section \<open>Facts about the tasks\<close>








lemma mark_failed_lookup:
  assumes "orm_get upload_id (image_uploads d) k = Inr img"
    and "orm_get ubatch_id (upload_batches d) (upload_batch img) = Inr b"
  shows "orm_get upload_id (image_uploads (mark_failed d k msg)) k
           = Inr (img\<lparr>upload_status := failed, error_message := Some msg\<rparr>)"
    and "orm_get ubatch_id (upload_batches (mark_failed d k msg)) (upload_batch img)
           = Inr (b\<lparr>failed_files := failed_files b + 1\<rparr>)"
    and "legacy_annotations (mark_failed d k msg) = legacy_annotations d"
    and "storage (mark_failed d k msg) = storage d"
    and "task_queue (mark_failed d k msg) = task_queue d"
proof -
  have k: "upload_id img = k"
    using assms(1) find_Some_mem [of "\<lambda>r. upload_id r = k" "image_uploads d" img]
    by (simp add: orm_get_Inr_iff)
  have bk: "ubatch_id b = upload_batch img"
    using assms(2) find_Some_mem [of "\<lambda>r. ubatch_id r = upload_batch img" "upload_batches d" b]
    by (simp add: orm_get_Inr_iff)
  let ?img' = "img\<lparr>upload_status := failed, error_message := Some msg\<rparr>"
  let ?b' = "b\<lparr>failed_files := failed_files b + 1\<rparr>"
  have mf: "mark_failed d k msg =
      d\<lparr>image_uploads := orm_save upload_id (image_uploads d) ?img',
        upload_batches := orm_save ubatch_id (upload_batches d) ?b'\<rparr>"
    using assms by (simp add: mark_failed_def Let_def)
  have "upload_id ?img' = k" using k by simp
  from orm_get_save [OF assms(1) this]
  show "orm_get upload_id (image_uploads (mark_failed d k msg)) k = Inr ?img'"
    by (simp add: mf)
  have "ubatch_id ?b' = upload_batch img" using bk by simp
  from orm_get_save [OF assms(2) this]
  show "orm_get ubatch_id (upload_batches (mark_failed d k msg)) (upload_batch img) = Inr ?b'"
    by (simp add: mf)
  show "legacy_annotations (mark_failed d k msg) = legacy_annotations d"
    "storage (mark_failed d k msg) = storage d"
    "task_queue (mark_failed d k msg) = task_queue d"
    by (simp_all add: mf)
qed


lemma task_attempt_fails:
  assumes g: "orm_get upload_id (image_uploads d) k = Inr img"
    and gb: "orm_get ubatch_id (upload_batches d) (upload_batch img) = Inr b"
    and f: "detect (file_path img) = Inl msg"
  shows "fst (process_image_with_yolo pf detect now r d k) = retry_logic r"
    and "orm_get upload_id (image_uploads (snd (process_image_with_yolo pf detect now r d k))) k
           = Inr (img\<lparr>upload_status := failed, error_message := Some msg\<rparr>)"
    and "orm_get ubatch_id (upload_batches (snd (process_image_with_yolo pf detect now r d k)))
             (upload_batch img)
           = Inr (b\<lparr>failed_files := failed_files b + 1\<rparr>)"
proof -
  let ?p = "img\<lparr>upload_status := processing\<rparr>"
  let ?d1 = "d\<lparr>image_uploads := orm_save upload_id (image_uploads d) ?p\<rparr>"
  have k: "upload_id img = k"
    using g find_Some_mem [of "\<lambda>r. upload_id r = k" "image_uploads d" img]
    by (simp add: orm_get_Inr_iff)
  then have "upload_id ?p = k" by simp
  from orm_get_save [OF g this]
  have g1: "orm_get upload_id (image_uploads ?d1) k = Inr ?p" by simp
  have gb1: "orm_get ubatch_id (upload_batches ?d1) (upload_batch ?p) = Inr b"
    using gb by simp
  have run: "process_image_with_yolo pf detect now r d k = (retry_logic r, mark_failed ?d1 k msg)"
    using g gb f by (simp add: process_image_with_yolo_def Let_def)
  show "fst (process_image_with_yolo pf detect now r d k) = retry_logic r"
    by (simp add: run)
  from mark_failed_lookup(1) [OF g1 gb1, of msg]
  show "orm_get upload_id (image_uploads (snd (process_image_with_yolo pf detect now r d k))) k
           = Inr (img\<lparr>upload_status := failed, error_message := Some msg\<rparr>)"
    by (simp add: run)
  from mark_failed_lookup(2) [OF g1 gb1, of msg]
  show "orm_get ubatch_id (upload_batches (snd (process_image_with_yolo pf detect now r d k)))
             (upload_batch img)
           = Inr (b\<lparr>failed_files := failed_files b + 1\<rparr>)"
    by (simp add: run)
qed

lemma run_task_all_fail:
  assumes fails: "\<And>r. \<exists>msg. detect r path = Inl msg"
  shows "r \<le> max_retries \<Longrightarrow>
     orm_get upload_id (image_uploads d) k = Inr img \<Longrightarrow> file_path img = path \<Longrightarrow>
     orm_get ubatch_id (upload_batches d) (upload_batch img) = Inr b \<Longrightarrow>
     \<exists>d' img'. run_task pf detect now r d k = (map (\<lambda>j. 60 * (j + 1)) [r..<max_retries], d')
       \<and> orm_get upload_id (image_uploads d') k = Inr img'
       \<and> upload_status img' = failed
       \<and> orm_get ubatch_id (upload_batches d') (upload_batch img)
           = Inr (b\<lparr>failed_files := failed_files b + int (max_retries + 1 - r)\<rparr>)"
proof (induction "max_retries - r" arbitrary: r d img b)
  case 0
  then have r: "r = max_retries" by simp
  obtain msg where m: "detect r (file_path img) = Inl msg" using fails 0 by blast
  let ?res = "process_image_with_yolo pf (detect r) now r d k"
  note a = task_attempt_fails [where detect = "detect r" and now = now and r = r and pf = pf,
      OF "0.prems"(2) "0.prems"(4) m]
  have "fst ?res = Task_done" using a(1) r by (simp add: retry_logic_def)
  then have rt: "run_task pf detect now r d k = ([], snd ?res)"
    by (subst run_task.simps) (simp add: case_prod_beta)
  show ?case
    apply (rule exI [of _ "snd ?res"])
    apply (rule exI [of _ "img\<lparr>upload_status := failed, error_message := Some msg\<rparr>"])
    using a(2) a(3) rt r by simp
next
  case (Suc n)
  then have r: "r < max_retries" by simp
  obtain msg where m: "detect r (file_path img) = Inl msg" using fails Suc by blast
  let ?res = "process_image_with_yolo pf (detect r) now r d k"
  let ?img1 = "img\<lparr>upload_status := failed, error_message := Some msg\<rparr>"
  let ?b1 = "b\<lparr>failed_files := failed_files b + 1\<rparr>"
  note a = task_attempt_fails [where detect = "detect r" and now = now and r = r and pf = pf,
      OF Suc.prems(2) Suc.prems(4) m]
  have o: "fst ?res = Task_retry (60 * (r + 1))" using a(1) r by (simp add: retry_logic_def)
  have n: "n = max_retries - Suc r" using Suc.hyps(2) by simp
  have p1: "file_path ?img1 = path" using Suc.prems(3) by simp
  have b1: "orm_get ubatch_id (upload_batches (snd ?res)) (upload_batch ?img1) = Inr ?b1"
    using a(3) by simp
  from Suc.hyps(1) [OF n _ a(2) p1 b1] r
  obtain d' img' where ih:
    "run_task pf detect now (Suc r) (snd ?res) k = (map (\<lambda>j. 60 * (j + 1)) [Suc r..<max_retries], d')"
    "orm_get upload_id (image_uploads d') k = Inr img'"
    "upload_status img' = failed"
    "orm_get ubatch_id (upload_batches d') (upload_batch ?img1)
       = Inr (?b1\<lparr>failed_files := failed_files ?b1 + int (max_retries + 1 - Suc r)\<rparr>)"
    by auto
  have rt: "run_task pf detect now r d k
      = (60 * (r + 1) # map (\<lambda>j. 60 * (j + 1)) [Suc r..<max_retries], d')"
    using o r ih(1) by (subst run_task.simps) (simp add: case_prod_beta)
  have l: "[r..<max_retries] = r # [Suc r..<max_retries]" using r by (simp add: upt_conv_Cons)
  have c: "failed_files b + 1 + int (max_retries + 1 - Suc r)
      = failed_files b + int (max_retries + 1 - r)" using r by simp
  show ?case
    apply (rule exI [of _ d'])
    apply (rule exI [of _ img'])
    using rt ih(2) ih(3) ih(4) l c by simp
qed

section \<open>When a batch is marked completed\<close>

lemma task_versions_same_state:
  "snd (process_image_with_yolo pf detect now retries d k)
     = snd (process_image_with_yolo_sync pf detect now d k)"
  by (simp add: process_image_with_yolo_def process_image_with_yolo_sync_def Let_def
      split: sum.splits prod.splits)





section \<open>Retries of a failing detection\<close>

lemma task_outcome_cases:
  "fst (process_image_with_yolo pf detect now r d k) = Task_done
   \<or> fst (process_image_with_yolo pf detect now r d k) = retry_logic r"
  by (simp add: process_image_with_yolo_def Let_def split: sum.splits)

lemma run_task_countdowns:
  "\<exists>n. r + n \<le> max r max_retries
     \<and> fst (run_task pf detect now r d k) = map (\<lambda>j. 60 * (j + 1)) [r..<r + n]"
proof (induction pf detect now r d k rule: run_task.induct)
  case (1 pf detect now retries d image_id)
  let ?res = "process_image_with_yolo pf (detect retries) now retries d image_id"
  show ?case
  proof (cases "fst ?res")
    case Task_done
    then have "fst (run_task pf detect now retries d image_id) = []"
      by (subst run_task.simps) (simp add: case_prod_beta)
    then show ?thesis by (intro exI [of _ 0]) simp
  next
    case (Task_retry c)
    with task_outcome_cases [of pf "detect retries" now retries d image_id]
    have rl: "retry_logic retries = Task_retry c" by simp
    then have lt: "retries < max_retries" and c: "c = 60 * (retries + 1)"
      by (auto simp: retry_logic_def split: if_splits)
    have pr: "?res = (Task_retry c, snd ?res)" using Task_retry by (simp add: prod_eq_iff)
    from "1.IH" [OF pr [symmetric] refl lt]
    obtain n where n: "Suc retries + n \<le> max (Suc retries) max_retries"
      "fst (run_task pf detect now (Suc retries) (snd ?res) image_id)
         = map (\<lambda>j. 60 * (j + 1)) [Suc retries..<Suc retries + n]"
      by blast
    have "fst (run_task pf detect now retries d image_id)
        = c # fst (run_task pf detect now (Suc retries) (snd ?res) image_id)"
      using Task_retry lt by (subst run_task.simps) (simp add: case_prod_beta)
    then have "fst (run_task pf detect now retries d image_id)
        = map (\<lambda>j. 60 * (j + 1)) [retries..<retries + Suc n]"
      using n(2) c by (simp add: upt_conv_Cons)
    moreover have "retries + Suc n \<le> max retries max_retries" using n(1) lt by simp
    ultimately show ?thesis by blast
  qed
qed

text \<open>
  C7 (as amended). A failing detection is retried at most three times, and the wait
  before retry number \<open>j + 1\<close> is \<open>60 * (j + 1)\<close> seconds: 60, 120 and 180, growing
  linearly. When every execution fails, the image is left in the failed state after the
  waits 60, 120, 180, and the row of its batch differs from what it was in
  \<open>failed_files\<close> only.
\<close>

theorem detection_retries_linear:
  assumes "orm_get upload_id (image_uploads d) k = Inr img"
    and "orm_get ubatch_id (upload_batches d) (upload_batch img) = Inr b"
    and "\<forall>r. \<exists>msg. detect r (file_path img) = Inl msg"
  shows "(\<exists>n\<le>max_retries. fst (run_task any_pf any_detect now 0 any_d any_k)
            = map (\<lambda>j. 60 * (j + 1)) [0..<n])
     \<and> (\<exists>d' img' b'. run_task pf detect now 0 d k = ([60, 120, 180], d')
          \<and> orm_get upload_id (image_uploads d') k = Inr img'
          \<and> upload_status img' = failed
          \<and> orm_get ubatch_id (upload_batches d') (upload_batch img) = Inr b'
          \<and> b'\<lparr>failed_files := failed_files b\<rparr> = b)"
proof -
  from run_task_countdowns [of 0 any_pf any_detect now any_d any_k]
  have bound: "\<exists>n\<le>max_retries. fst (run_task any_pf any_detect now 0 any_d any_k)
            = map (\<lambda>j. 60 * (j + 1)) [0..<n]"
    by auto
  have fails: "\<And>r. \<exists>msg. detect r (file_path img) = Inl msg" using assms(3) by blast
  from run_task_all_fail [of detect "file_path img" 0 d k img b pf now,
      OF fails _ assms(1) refl assms(2)]
  obtain d' img' where r:
    "run_task pf detect now 0 d k = (map (\<lambda>j. 60 * (j + 1)) [0..<max_retries], d')"
    "orm_get upload_id (image_uploads d') k = Inr img'"
    "upload_status img' = failed"
    "orm_get ubatch_id (upload_batches d') (upload_batch img)
       = Inr (b\<lparr>failed_files := failed_files b + int (max_retries + 1 - 0)\<rparr>)"
    by auto
  have l: "map (\<lambda>j. 60 * (j + 1)) [0..<max_retries] = [60, 120, 180::nat]"
    by (simp add: max_retries_def upt_conv_Cons)
  have "run_task pf detect now 0 d k = ([60, 120, 180], d')" using r(1) l by simp
  with r(2) r(3) r(4) bound show ?thesis by auto
qed

theorem detection_retries_linear_witness:
  "orm_get upload_id (image_uploads five_uploads) 3 = Inr (fresh_upload 3 1 ''c'')
   \<and> orm_get ubatch_id (upload_batches five_uploads) 1 = Inr batch_of_five
   \<and> fails_on ''c'' (file_path (fresh_upload 3 1 ''c'')) = Inl ''detection failed''
   \<and> fst (run_task exact_platform (\<lambda>r. fails_on ''c'') 7 0 five_uploads 3) = [60, 120, 180]
   \<and> (\<exists>img'. orm_get upload_id
          (image_uploads (snd (run_task exact_platform (\<lambda>r. fails_on ''c'') 7 0 five_uploads 3))) 3 = Inr img'
        \<and> upload_status img' = failed)"
proof -
  have h1: "orm_get upload_id (image_uploads five_uploads) 3 = Inr (fresh_upload 3 1 ''c'')"
    by (simp add: five_uploads_def fresh_upload_def orm_get_def)
  have h2: "orm_get ubatch_id (upload_batches five_uploads) (upload_batch (fresh_upload 3 1 ''c''))
      = Inr batch_of_five"
    by (simp add: five_uploads_def fresh_upload_def batch_of_five_def orm_get_def)
  have h3: "\<forall>r. \<exists>msg. (\<lambda>r. fails_on ''c'') r (file_path (fresh_upload 3 1 ''c'')) = Inl msg"
    by (simp add: fails_on_def fresh_upload_def)
  have h4: "fails_on ''c'' (file_path (fresh_upload 3 1 ''c'')) = Inl ''detection failed''"
    by (simp add: fails_on_def fresh_upload_def)
  from detection_retries_linear [where detect = "\<lambda>r. fails_on ''c''" and now = 7
      and any_detect = "\<lambda>r. fails_on ''c''" and any_d = five_uploads and any_k = 3
      and pf = exact_platform and any_pf = exact_platform,
      OF h1 h2 h3]
  obtain d' img' where
    "run_task exact_platform (\<lambda>r. fails_on ''c'') 7 0 five_uploads 3 = ([60, 120, 180], d')"
    "orm_get upload_id (image_uploads d') 3 = Inr img'" "upload_status img' = failed"
    by blast
  then show ?thesis using h1 h2 h4 by (auto simp: fresh_upload_def)
qed

text \<open>
  Against the claim as stated: the three waits have the constant difference 60, not a
  constant ratio.
\<close>

theorem detection_backoff_counterexample:
  "fst (run_task exact_platform (\<lambda>r. fails_on ''c'') 7 0 five_uploads 3) = [60, 120, 180]
   \<and> (180::nat) - 120 = 120 - 60
   \<and> (180::nat) * 60 \<noteq> 120 * 120"
proof -
  have "fst (run_task exact_platform (\<lambda>r. fails_on ''c'') 7 0 five_uploads 3) = [60, 120, 180]"
    by code_simp
  then show ?thesis by simp
qed

section \<open>One failing image in a batch of five\<close>

text \<open>
  C8, evaluated at a batch of five uploads of which the third fails detection, processed
  synchronously by \<open>process_batch_with_yolo\<close>. The four siblings are completed and the
  failing image is failed; the response counts four processed and one failed. The stored
  row of the batch has \<open>failed_files = 0\<close> and \<open>processed_files = 0\<close> and status
  processing: the view saves its own instance of the batch after the loop, over the
  counters the task had written.
\<close>

theorem five_uploads_one_failure:
  "fst (process_batch_with_yolo pf (fails_on ''c'') 7 False five_uploads 1 1)
     = Processing_completed 4 1
   \<and> map (\<lambda>i. (upload_id i, upload_status i))
        (image_uploads (snd (process_batch_with_yolo pf (fails_on ''c'') 7 False five_uploads 1 1)))
     = [(5, completed), (4, completed), (3, failed), (2, completed), (1, completed)]
   \<and> map (\<lambda>b. (processed_files b, failed_files b, ubatch_status b))
        (upload_batches (snd (process_batch_with_yolo pf (fails_on ''c'') 7 False five_uploads 1 1)))
     = [(0, 0, Processing)]"
  by code_simp

text \<open>
  In general: the loop of the view leaves \<open>processed_files\<close> of the view's own batch
  instance as it was read before the loop and never raises its \<open>failed_files\<close> (a
  counter that is not negative), whatever
  the tasks write to the stored row. This is the instance saved after the loop and read
  by the completion test.
\<close>

lemma process_images_view_instance:
  "process_images pf detect now use_async imgs (b, d, p, f) = (b', d', p', f') \<Longrightarrow>
     processed_files b' = processed_files b \<and> failed_files b' \<le> max 0 (failed_files b)
     \<and> uploaded_files b' = uploaded_files b \<and> ubatch_id b' = ubatch_id b
     \<and> p' + f' = p + f + int (length imgs)"
proof (induction imgs arbitrary: b d p f)
  case Nil
  then show ?case by simp
next
  case (Cons img rest)
  let ?b1 = "if upload_status img = failed
             then b\<lparr>failed_files := max 0 (failed_files b - 1)\<rparr> else b"
  from Cons.prems obtain d1 p1 f1 where
    step: "process_images pf detect now use_async rest (?b1, d1, p1, f1) = (b', d', p', f')"
      and cnt: "p1 + f1 = p + f + 1"
    by (auto simp: Let_def split: if_splits prod.splits)
  from Cons.IH [OF step] cnt show ?case by (auto split: if_splits)
qed

text \<open>
  The same image handed to the Celery task and failing at every execution: each of the
  four executions increments \<open>failed_files\<close>.
\<close>

lemma five_uploads_retries_exhausted:
  "map (\<lambda>b. (processed_files b, failed_files b))
     (upload_batches (snd (run_task pf (\<lambda>r. fails_on ''c'') 7 0 five_uploads 3))) = [(0, 4)]
   \<and> map upload_status (image_uploads (snd (run_task pf (\<lambda>r. fails_on ''c'') 7 0 five_uploads 3)))
     = [uploaded, uploaded, failed, uploaded, uploaded]"
  by code_simp

section \<open>Validation of an upload\<close>

text \<open>
  C10. A request whose file is larger than 10 MB (10 * 1024 * 1024 bytes), or whose
  content type is not one of image/jpeg, image/png, image/webp, image/bmp, is answered
  with status 400 and the stored state is returned as it was: nothing is written to the
  storage, no ImageUpload row is created and no batch row changes.
\<close>

theorem upload_image_rejects:
  "files_file request = Some f \<Longrightarrow>
     upload_size f > 10 * 1024 * 1024 \<or> content_type f \<notin> set allowed_types \<Longrightarrow>
     \<exists>msg. upload_image env d request = (Upload_error 400 msg, d)"
  by (auto simp: upload_image_def split: option.splits)

text \<open>
  The theorem at a file one byte over the limit and at a text file; a file of exactly
  10 MB passes the validation and is stored.
\<close>

definition upload_env_one :: upload_env where
  "upload_env_one = \<lparr>parse_uuid = (\<lambda>s. if s = ''1'' then Some 1 else None),
     splitext_ext = (\<lambda>s. ''.jpg''), available_name = (\<lambda>taken name. name),
     new_upload_id = 6, accepts_upload = (\<lambda>row. True)\<rparr>"

definition upload_of :: "int \<Rightarrow> string \<Rightarrow> upload_request" where
  "upload_of n ctype = \<lparr>request_user = 1, post_batch_id = Some ''1'', post_file_id = Some ''f'',
     files_file = Some \<lparr>file_name = ''f.jpg'', upload_size = n, content_type = ctype\<rparr>\<rparr>"

theorem upload_image_rejects_witness:
  "files_file (upload_of 10485761 ''image/jpeg'')
     = Some \<lparr>file_name = ''f.jpg'', upload_size = 10485761, content_type = ''image/jpeg''\<rparr>
   \<and> (10485761::int) > 10 * 1024 * 1024
   \<and> upload_image upload_env_one five_uploads (upload_of 10485761 ''image/jpeg'')
       = (Upload_error 400 ''File too large. Maximum size is 10MB'', five_uploads)
   \<and> ''text/plain'' \<notin> set allowed_types
   \<and> upload_image upload_env_one five_uploads (upload_of 1000 ''text/plain'')
       = (Upload_error 400 ''Invalid file type'', five_uploads)"
  using upload_image_rejects [of "upload_of 10485761 ''image/jpeg''"
      "\<lparr>file_name = ''f.jpg'', upload_size = 10485761, content_type = ''image/jpeg''\<rparr>"
      upload_env_one five_uploads]
    upload_image_rejects [of "upload_of 1000 ''text/plain''"
      "\<lparr>file_name = ''f.jpg'', upload_size = 1000, content_type = ''text/plain''\<rparr>"
      upload_env_one five_uploads]
  by (simp add: upload_of_def upload_image_def allowed_types_def)

lemma upload_image_at_limit:
  "fst (upload_image upload_env_one five_uploads (upload_of 10485760 ''image/jpeg'')) = Upload_ok 6
   \<and> storage (snd (upload_image upload_env_one five_uploads (upload_of 10485760 ''image/jpeg'')))
       = [''1/f.jpg'', ''e'', ''d'', ''c'', ''b'', ''a'']
   \<and> map uploaded_files
        (upload_batches (snd (upload_image upload_env_one five_uploads (upload_of 10485760 ''image/jpeg''))))
       = [6]"
  by code_simp


end
